theory Spec2Isabelle
  imports Main
begin

section \<open>RecMar stock bridge: matching, deduplication and bulk writing\<close>

text \<open>
  The repository holds two versions of the same script. The text below calls
  \<^verbatim>\<open>src/unnamed/part_000\<close> the \<^emph>\<open>deduplicating version\<close> (its header announces the
  deduplication and the activation of unstocked items) and \<^verbatim>\<open>src/recmar-sync.mjs\<close> the
  \<^emph>\<open>plain version\<close>. Definitions without a suffix embed the deduplicating version;
  definitions ending in \<open>_plain\<close> embed the plain version.

  Strings are lists of characters; a character beyond ASCII has a code of 128 or more.
  The case table of the JavaScript library (\<^verbatim>\<open>String.prototype.toUpperCase\<close>, which knows
  all of Unicode and may lengthen a string, as from the sharp s to \<open>SS\<close>) is not part of
  the repository: every definition that upper-cases a SKU takes it as its first argument,
  \<open>toUpperCase\<close>, and the properties below hold for every such function or say what they
  assume of it.
\<close>

subsection \<open>Strings\<close>

text \<open>
  What upper-casing does to an ASCII character: a..z (97..122) go to A..Z, the other ASCII
  characters stay. A character beyond ASCII is left alone by this function; it is used
  where only ASCII letters can matter (the flag \<^verbatim>\<open>/i\<close> against an ASCII pattern) and to say
  what is assumed of the library's table on ASCII strings.
\<close>

definition ascii_upper :: "char \<Rightarrow> char" where
  "ascii_upper c =
     (let n = (of_char c :: nat) in if 97 \<le> n \<and> n \<le> 122 then char_of (n - 32) else c)"

text \<open>The characters that \<^verbatim>\<open>/[^A-Z0-9]/g\<close> does not remove.\<close>

definition is_AZ09 :: "char \<Rightarrow> bool" where
  "is_AZ09 c = (let n = (of_char c :: nat) in (65 \<le> n \<and> n \<le> 90) \<or> (48 \<le> n \<and> n \<le> 57))"

text \<open>
  \<^verbatim>\<open>function normalizeSkuText(s){ return String(s||'').toUpperCase().replace(/[^A-Z0-9]/g,''); }\<close>
  The argument is a string, so \<^verbatim>\<open>String(s||'')\<close> is the argument itself. The first
  argument is the library's \<^verbatim>\<open>toUpperCase\<close>.
\<close>

definition normalizeSkuText :: "(string \<Rightarrow> string) \<Rightarrow> string \<Rightarrow> string" where
  "normalizeSkuText toUpperCase s = filter is_AZ09 (toUpperCase s)"

text \<open>
  Two case tables for examples. The first is the library's table on strings of ASCII
  characters, which is all that the SKUs of the examples hold. The second also turns the
  character 223 (the sharp s of Latin-1) into \<open>SS\<close>, as the library's table does.
\<close>

definition toUpperCase_ascii :: "string \<Rightarrow> string" where
  "toUpperCase_ascii s = map ascii_upper s"

definition toUpperCase_sharp_s :: "string \<Rightarrow> string" where
  "toUpperCase_sharp_s s =
     concat (map (\<lambda>c. if of_char c = (223 :: nat) then ''SS'' else [ascii_upper c]) s)"

text \<open>
  \<^verbatim>\<open>/literal/.test(text)\<close> for a pattern without metacharacters: some position of the
  text starts with the pattern. The first argument canonicalises a character before the
  comparison: the identity for a case-sensitive pattern; under \<^verbatim>\<open>/i\<close> (without the
  Unicode flag) a character beyond ASCII never canonicalises to an ASCII character, so
  against an ASCII pattern the canonicalisation is \<^const>\<open>ascii_upper\<close>.
\<close>

fun starts_with :: "(char \<Rightarrow> char) \<Rightarrow> string \<Rightarrow> string \<Rightarrow> bool" where
  "starts_with canon [] text = True"
| "starts_with canon (p # ps) [] = False"
| "starts_with canon (p # ps) (c # cs) = (canon p = canon c \<and> starts_with canon ps cs)"

fun regex_test :: "(char \<Rightarrow> char) \<Rightarrow> string \<Rightarrow> string \<Rightarrow> bool" where
  "regex_test canon pat [] = starts_with canon pat []"
| "regex_test canon pat (c # cs) = (starts_with canon pat (c # cs) \<or> regex_test canon pat cs)"

text \<open>\<^verbatim>\<open>String(n)\<close> for a natural number: its decimal digits.\<close>

fun String_of_nat :: "nat \<Rightarrow> string" where
  "String_of_nat n =
     (if n < 10 then [char_of (48 + n)]
      else String_of_nat (n div 10) @ [char_of (48 + n mod 10)])"

declare String_of_nat.simps [simp del]

subsection \<open>JavaScript maps and sets\<close>

text \<open>
  A \<^verbatim>\<open>Map\<close> is the list of its entries in insertion order. \<^verbatim>\<open>set\<close> on a key that is
  present replaces the value where the entry stands; on a new key it appends an entry.
\<close>

type_synonym ('k, 'v) js_map = "('k \<times> 'v) list"

definition map_get :: "('k, 'v) js_map \<Rightarrow> 'k \<Rightarrow> 'v option" where
  "map_get m k = map_of m k"

fun map_set :: "('k, 'v) js_map \<Rightarrow> 'k \<Rightarrow> 'v \<Rightarrow> ('k, 'v) js_map" where
  "map_set [] k v = [(k, v)]"
| "map_set ((k', v') # m) k v = (if k' = k then (k, v) # m else (k', v') # map_set m k v)"

definition map_size :: "('k, 'v) js_map \<Rightarrow> nat" where
  "map_size m = length m"

definition map_values :: "('k, 'v) js_map \<Rightarrow> 'v list" where
  "map_values m = map snd m"

text \<open>A \<^verbatim>\<open>Set\<close> is the list of its elements in insertion order.\<close>

definition set_add :: "'a list \<Rightarrow> 'a \<Rightarrow> 'a list" where
  "set_add s x = (if x \<in> set s then s else s @ [x])"

definition set_has :: "'a list \<Rightarrow> 'a \<Rightarrow> bool" where
  "set_has s x = (x \<in> set s)"

text \<open>
  Truthiness of the result of a lookup that yields a string: \<^verbatim>\<open>undefined\<close> and the
  empty string are falsy.
\<close>

definition truthy :: "string option \<Rightarrow> bool" where
  "truthy v = (case v of None \<Rightarrow> False | Some s \<Rightarrow> s \<noteq> [])"

text \<open>\<^verbatim>\<open>v || ''\<close> for such a result.\<close>

definition or_empty :: "string option \<Rightarrow> string" where
  "or_empty v = (case v of None \<Rightarrow> [] | Some s \<Rightarrow> s)"

subsection \<open>Rows\<close>

text \<open>
  A quantity is a JavaScript number that the script only carries (\<^verbatim>\<open>Number(qty)\<close> of a
  number is the number), so it is a type parameter.
\<close>

record 'q candidate =
  sku :: string
  inventory_item_id :: string
  qty :: 'q

record miss =
  miss_sku :: string
  mapped_to :: string
  reason :: string

record ambiguous_row =
  normalized_key :: string
  matches :: nat
  sample :: string

record 'q changed_row =
  row_sku :: string
  row_inventory_item_id :: string
  row_to :: 'q

record 'q match_state =
  candidates :: "'q candidate list"
  misses :: "miss list"
  ambiguous :: "ambiguous_row list"
  matchedExact :: nat
  matchedMapped :: nat
  matchedNormalized :: nat

definition match_init :: "'q match_state" where
  "match_init = \<lparr> candidates = [], misses = [], ambiguous = [],
                   matchedExact = 0, matchedMapped = 0, matchedNormalized = 0 \<rparr>"

subsection \<open>The match loop of the deduplicating version\<close>

text \<open>
  The end of the loop body:
  \<^verbatim>\<open>if (!invId) { misses.push({ sku: feedSku, mapped_to: skuMap.get(feedSku) || '', reason:'not_in_shopify' }); continue; }\<close>
  \<^verbatim>\<open>candidates.push({ sku: targetSku, inventory_item_id: String(invId), qty: Number(qty) });\<close>
  An item id is a string (a capture of the regular expression of the catalog reader), so
  \<^verbatim>\<open>String(invId)\<close> is \<^verbatim>\<open>invId\<close>.
\<close>

definition String_of_id :: "string \<Rightarrow> string" where
  "String_of_id s = s"

definition push_row ::
  "(string, string) js_map \<Rightarrow> string \<Rightarrow> 'q \<Rightarrow> string \<Rightarrow> string option \<Rightarrow>
   'q match_state \<Rightarrow> 'q match_state" where
  "push_row skuMap feedSku q targetSku invId st =
     (if \<not> truthy invId
      then st\<lparr> misses := misses st @
             [\<lparr> miss_sku = feedSku, mapped_to = or_empty (map_get skuMap feedSku),
                reason = ''not_in_shopify'' \<rparr>] \<rparr>
      else st\<lparr> candidates := candidates st @
             [\<lparr> sku = targetSku, inventory_item_id = String_of_id (the invId), qty = q \<rparr>] \<rparr>)"

text \<open>
  The second tier: \<^verbatim>\<open>if (!invId && skuMap.size) { const mapped = skuMap.get(feedSku);
  if (mapped) { targetSku = mapped; invId = exact.get(mapped); if (invId) matchedMapped++; } }\<close>
  It yields the target SKU, the item id and the state after it.
\<close>

definition mapped_tier ::
  "(string, string) js_map \<Rightarrow> (string, string) js_map \<Rightarrow> string \<Rightarrow> string option \<Rightarrow>
   'q match_state \<Rightarrow> string \<times> string option \<times> 'q match_state" where
  "mapped_tier exact skuMap feedSku invId st =
     (if \<not> truthy invId \<and> map_size skuMap \<noteq> 0
      then (let mapped = map_get skuMap feedSku in
            if truthy mapped
            then (let invId' = map_get exact (the mapped) in
                  (the mapped, invId',
                   if truthy invId' then st\<lparr> matchedMapped := matchedMapped st + 1 \<rparr> else st))
            else (feedSku, invId, st))
      else (feedSku, invId, st))"

text \<open>
  One iteration of \<^verbatim>\<open>for (const [feedSku, qty] of feed.entries())\<close>. The branch of
  more than one normalized candidate ends in \<^verbatim>\<open>continue\<close>, so it does not reach
  \<^const>\<open>push_row\<close>.
\<close>

definition match_row ::
  "(string \<Rightarrow> string) \<Rightarrow> (string, string) js_map \<Rightarrow> (string, string list) js_map \<Rightarrow> (string, string) js_map \<Rightarrow>
   string \<Rightarrow> string \<times> 'q \<Rightarrow> 'q match_state \<Rightarrow> 'q match_state" where
  "match_row toUpperCase exact normalized skuMap mode row st =
     (case row of (feedSku, q) \<Rightarrow>
      (case mapped_tier exact skuMap feedSku (map_get exact feedSku) st of
         (targetSku, invId, st1) \<Rightarrow>
           if \<not> truthy invId \<and> mode \<noteq> ''exact''
           then (let nk = normalizeSkuText toUpperCase targetSku;
                     list = (case map_get normalized nk of None \<Rightarrow> [] | Some l \<Rightarrow> l)
                 in if length list = 1
                    then push_row skuMap feedSku q targetSku (Some (list ! 0))
                           (st1\<lparr> matchedNormalized := matchedNormalized st1 + 1 \<rparr>)
                    else if length list > 1
                    then st1\<lparr> ambiguous := ambiguous st1 @
                           [\<lparr> normalized_key = nk, matches = length list, sample = targetSku \<rparr>] \<rparr>
                    else push_row skuMap feedSku q targetSku invId st1)
           else if truthy invId
           then push_row skuMap feedSku q targetSku invId
                  (st1\<lparr> matchedExact := matchedExact st1 + 1 \<rparr>)
           else push_row skuMap feedSku q targetSku invId st1))"

definition match_loop ::
  "(string \<Rightarrow> string) \<Rightarrow> (string, string) js_map \<Rightarrow> (string, string list) js_map \<Rightarrow> (string, string) js_map \<Rightarrow>
   string \<Rightarrow> (string, 'q) js_map \<Rightarrow> 'q match_state \<Rightarrow> 'q match_state" where
  "match_loop toUpperCase exact normalized skuMap mode feed st =
     fold (match_row toUpperCase exact normalized skuMap mode) feed st"

subsection \<open>The match loop of the plain version\<close>

text \<open>
  The same loop; the row pushed at its end is
  \<^verbatim>\<open>intersect.push({ sku: targetSku, inventory_item_id: invId, qty: Number(qty) });\<close>
  and the list \<^verbatim>\<open>intersect\<close> is the field \<^const>\<open>candidates\<close> of the state.
\<close>

definition push_row_plain ::
  "(string, string) js_map \<Rightarrow> string \<Rightarrow> 'q \<Rightarrow> string \<Rightarrow> string option \<Rightarrow>
   'q match_state \<Rightarrow> 'q match_state" where
  "push_row_plain skuMap feedSku q targetSku invId st =
     (if \<not> truthy invId
      then st\<lparr> misses := misses st @
             [\<lparr> miss_sku = feedSku, mapped_to = or_empty (map_get skuMap feedSku),
                reason = ''not_in_shopify'' \<rparr>] \<rparr>
      else st\<lparr> candidates := candidates st @
             [\<lparr> sku = targetSku, inventory_item_id = the invId, qty = q \<rparr>] \<rparr>)"

definition mapped_tier_plain ::
  "(string, string) js_map \<Rightarrow> (string, string) js_map \<Rightarrow> string \<Rightarrow> string option \<Rightarrow>
   'q match_state \<Rightarrow> string \<times> string option \<times> 'q match_state" where
  "mapped_tier_plain exact skuMap feedSku invId st =
     (if \<not> truthy invId \<and> map_size skuMap \<noteq> 0
      then (let mapped = map_get skuMap feedSku in
            if truthy mapped
            then (let invId' = map_get exact (the mapped) in
                  (the mapped, invId',
                   if truthy invId' then st\<lparr> matchedMapped := matchedMapped st + 1 \<rparr> else st))
            else (feedSku, invId, st))
      else (feedSku, invId, st))"

definition match_row_plain ::
  "(string \<Rightarrow> string) \<Rightarrow> (string, string) js_map \<Rightarrow> (string, string list) js_map \<Rightarrow> (string, string) js_map \<Rightarrow>
   string \<Rightarrow> string \<times> 'q \<Rightarrow> 'q match_state \<Rightarrow> 'q match_state" where
  "match_row_plain toUpperCase exact normalized skuMap mode row st =
     (case row of (feedSku, q) \<Rightarrow>
      (case mapped_tier_plain exact skuMap feedSku (map_get exact feedSku) st of
         (targetSku, invId, st1) \<Rightarrow>
           if \<not> truthy invId \<and> mode \<noteq> ''exact''
           then (let nk = normalizeSkuText toUpperCase targetSku;
                     list = (case map_get normalized nk of None \<Rightarrow> [] | Some l \<Rightarrow> l)
                 in if length list = 1
                    then push_row_plain skuMap feedSku q targetSku (Some (list ! 0))
                           (st1\<lparr> matchedNormalized := matchedNormalized st1 + 1 \<rparr>)
                    else if length list > 1
                    then st1\<lparr> ambiguous := ambiguous st1 @
                           [\<lparr> normalized_key = nk, matches = length list, sample = targetSku \<rparr>] \<rparr>
                    else push_row_plain skuMap feedSku q targetSku invId st1)
           else if truthy invId
           then push_row_plain skuMap feedSku q targetSku invId
                  (st1\<lparr> matchedExact := matchedExact st1 + 1 \<rparr>)
           else push_row_plain skuMap feedSku q targetSku invId st1))"

definition match_loop_plain ::
  "(string \<Rightarrow> string) \<Rightarrow> (string, string) js_map \<Rightarrow> (string, string list) js_map \<Rightarrow> (string, string) js_map \<Rightarrow>
   string \<Rightarrow> (string, 'q) js_map \<Rightarrow> 'q match_state \<Rightarrow> 'q match_state" where
  "match_loop_plain toUpperCase exact normalized skuMap mode feed st =
     fold (match_row_plain toUpperCase exact normalized skuMap mode) feed st"

subsection \<open>The work list\<close>

text \<open>
  The deduplicating version: \<^verbatim>\<open>const byInv = new Map();
  for (const x of candidates) byInv.set(x.inventory_item_id, x);
  let work = Array.from(byInv.values());\<close>
\<close>

definition byInv_loop ::
  "'q candidate list \<Rightarrow> (string, 'q candidate) js_map \<Rightarrow> (string, 'q candidate) js_map" where
  "byInv_loop cands byInv = fold (\<lambda>x byInv. map_set byInv (inventory_item_id x) x) cands byInv"

definition dedupe :: "'q candidate list \<Rightarrow> 'q candidate list" where
  "dedupe cands = map_values (byInv_loop cands [])"

text \<open>
  Both versions: \<^verbatim>\<open>if (String(FULL_SWEEP).toLowerCase() !== 'true') work = work.slice(0, 1500);\<close>
  The flag is the outcome of the comparison with \<^verbatim>\<open>'true'\<close>.
\<close>

definition scope_of_work :: "bool \<Rightarrow> 'q candidate list \<Rightarrow> 'q candidate list" where
  "scope_of_work full_sweep work = (if \<not> full_sweep then take 1500 work else work)"

definition work_list :: "bool \<Rightarrow> 'q candidate list \<Rightarrow> 'q candidate list" where
  "work_list full_sweep cands = scope_of_work full_sweep (dedupe cands)"

text \<open>The plain version: \<^verbatim>\<open>let work = intersect;\<close> and the same cap.\<close>

definition work_list_plain :: "bool \<Rightarrow> 'q candidate list \<Rightarrow> 'q candidate list" where
  "work_list_plain full_sweep intersect = scope_of_work full_sweep intersect"

subsection \<open>Calls to the shop\<close>

text \<open>
  A number read from the environment or from a reply: not a number, or an integer.
\<close>

datatype js_num = NaN | Num int

text \<open>
  \<^verbatim>\<open>const BATCH = Math.max(1, Number(GQL_BATCH) || 100);\<close> The argument is
  \<^verbatim>\<open>Number(GQL_BATCH)\<close>.
\<close>

definition BATCH :: "js_num \<Rightarrow> nat" where
  "BATCH g = (case g of NaN \<Rightarrow> 100 | Num n \<Rightarrow> if n = 0 then 100 else nat (max 1 n))"

text \<open>
  One entry of \<^verbatim>\<open>userErrors\<close>. \<open>field2\<close> is \<^verbatim>\<open>Number(e.field[2])\<close>, or \<open>None\<close> when
  \<^verbatim>\<open>e.field?.[2]\<close> is null or undefined; \<open>message\<close> is \<^verbatim>\<open>String(e.message || '')\<close>.
\<close>

record user_error =
  field2 :: "js_num option"
  message :: string

text \<open>
  \<^verbatim>\<open>gql(INV_SET_MUT, { input })\<close> either throws (the request failed, or the reply has
  \<^verbatim>\<open>errors\<close>) or returns data, of which the script reads
  \<^verbatim>\<open>data?.inventorySetQuantities?.userErrors || []\<close>.
\<close>

datatype gql_outcome = Threw | Data "user_error list"

text \<open>
  \<^verbatim>\<open>fetch\<close> of the connect endpoint either throws or yields a response with a status.
\<close>

datatype http_result = FetchFailed | Response nat

datatype connect_error = ConnectFailed

definition res_ok :: "nat \<Rightarrow> bool" where
  "res_ok status = (200 \<le> status \<and> status \<le> 299)"

text \<open>
  \<^verbatim>\<open>if (!res.ok) { const txt = await res.text();
  if (!/422/.test(String(res.status))) throw new Error(...); }\<close>
\<close>

definition connectInventory :: "http_result \<Rightarrow> connect_error + unit" where
  "connectInventory r =
     (case r of
        FetchFailed \<Rightarrow> Inl ConnectFailed
      | Response status \<Rightarrow>
          if \<not> res_ok status
          then (if \<not> regex_test (\<lambda>c. c) ''422'' (String_of_nat status)
                then Inl ConnectFailed else Inr ())
          else Inr ())"

text \<open>The calls that change the shop, in the order they are made.\<close>

datatype 'q call = SetQuantities "'q candidate list" | Connect string

text \<open>
  The variables of the writing part: the counters, the changed rows, the set of item ids
  to activate, the calls made so far, and the item ids for which the script printed
  \<^verbatim>\<open>connect failed\<close>. The plain version has no set to activate and never connects.
\<close>

record 'q run_state =
  updated :: int
  errors :: int
  changedRows :: "'q changed_row list"
  notStockedSet :: "string list"
  calls :: "'q call list"
  warned :: "string list"

definition run_init :: "'q run_state" where
  "run_init = \<lparr> updated = 0, errors = 0, changedRows = [], notStockedSet = [],
                 calls = [], warned = [] \<rparr>"

text \<open>
  The shop, as the script sees it: the reply to a bulk write and to a connect, each
  depending on how many calls came before and on what is sent.
\<close>

type_synonym 'q gql_oracle = "nat \<Rightarrow> 'q candidate list \<Rightarrow> gql_outcome"
type_synonym connect_oracle = "nat \<Rightarrow> string \<Rightarrow> http_result"

definition changed :: "'q candidate \<Rightarrow> 'q changed_row" where
  "changed x = \<lparr> row_sku = sku x, row_inventory_item_id = inventory_item_id x, row_to = qty x \<rparr>"

text \<open>\<^verbatim>\<open>xs.slice(i, j)\<close> for \<open>i \<le> j\<close>.\<close>

definition slice :: "'a list \<Rightarrow> nat \<Rightarrow> nat \<Rightarrow> 'a list" where
  "slice xs i j = take (j - i) (drop i xs)"

text \<open>
  \<^verbatim>\<open>/not stocked at the location/i.test(msg)\<close>
\<close>

definition not_stocked :: "string \<Rightarrow> bool" where
  "not_stocked msg = regex_test ascii_upper ''not stocked at the location'' msg"

text \<open>
  The body of \<^verbatim>\<open>for (const e of ue)\<close> in the first pass:
  \<^verbatim>\<open>const idx = Number(e.field?.[2] ?? -1);
  if (/not stocked at the location/i.test(msg) && idx >= 0 && idx < chunk.length)
    notStockedSet.add(chunk[idx].inventory_item_id);\<close>
\<close>

definition collect_not_stocked ::
  "'q candidate list \<Rightarrow> user_error \<Rightarrow> string list \<Rightarrow> string list" where
  "collect_not_stocked chunk e ns =
     (case (case field2 e of None \<Rightarrow> Num (- 1) | Some v \<Rightarrow> v) of
        NaN \<Rightarrow> ns
      | Num idx \<Rightarrow>
          if not_stocked (message e) \<and> 0 \<le> idx \<and> idx < int (length chunk)
          then set_add ns (inventory_item_id (chunk ! nat idx))
          else ns)"

text \<open>The body of the first pass for one chunk (the \<^verbatim>\<open>try\<close> and its \<^verbatim>\<open>catch\<close>).\<close>

definition pass1_chunk :: "'q gql_oracle \<Rightarrow> 'q candidate list \<Rightarrow> 'q run_state \<Rightarrow> 'q run_state" where
  "pass1_chunk gql chunk st =
     (let st0 = st\<lparr> calls := calls st @ [SetQuantities chunk] \<rparr> in
      case gql (length (calls st)) chunk of
        Threw \<Rightarrow> st0\<lparr> errors := errors st0 + int (length chunk) \<rparr>
      | Data ue \<Rightarrow>
          (let st1 = (if length ue \<noteq> 0
                      then st0\<lparr> notStockedSet := fold (collect_not_stocked chunk) ue (notStockedSet st0),
                                errors := errors st0 + int (length ue) \<rparr>
                      else st0);
               ok = max 0 (int (length chunk) - int (length ue))
           in st1\<lparr> updated := updated st1 + ok,
                    changedRows := changedRows st1 @ map changed (slice chunk 0 (nat ok)) \<rparr>))"

text \<open>The body of the retry pass for one chunk: the same without the collection.\<close>

definition retry_chunk :: "'q gql_oracle \<Rightarrow> 'q candidate list \<Rightarrow> 'q run_state \<Rightarrow> 'q run_state" where
  "retry_chunk gql chunk st =
     (let st0 = st\<lparr> calls := calls st @ [SetQuantities chunk] \<rparr> in
      case gql (length (calls st)) chunk of
        Threw \<Rightarrow> st0\<lparr> errors := errors st0 + int (length chunk) \<rparr>
      | Data ue \<Rightarrow>
          (let st1 = (if length ue \<noteq> 0 then st0\<lparr> errors := errors st0 + int (length ue) \<rparr> else st0);
               ok = max 0 (int (length chunk) - int (length ue))
           in st1\<lparr> updated := updated st1 + ok,
                    changedRows := changedRows st1 @ map changed (slice chunk 0 (nat ok)) \<rparr>))"

text \<open>
  The body of the only pass of the plain version; its count of rows is
  \<^verbatim>\<open>Math.max(0, chunk.length - (data?.inventorySetQuantities?.userErrors?.length || 0))\<close>.
\<close>

definition write_chunk_plain :: "'q gql_oracle \<Rightarrow> 'q candidate list \<Rightarrow> 'q run_state \<Rightarrow> 'q run_state" where
  "write_chunk_plain gql chunk st =
     (let st0 = st\<lparr> calls := calls st @ [SetQuantities chunk] \<rparr> in
      case gql (length (calls st)) chunk of
        Threw \<Rightarrow> st0\<lparr> errors := errors st0 + int (length chunk) \<rparr>
      | Data ue \<Rightarrow>
          (let st1 = (if length ue \<noteq> 0 then st0\<lparr> errors := errors st0 + int (length ue) \<rparr> else st0);
               ok = max 0 (int (length chunk) - (if length ue \<noteq> 0 then int (length ue) else 0))
           in st1\<lparr> updated := updated st1 + ok,
                    changedRows := changedRows st1 @ map changed (slice chunk 0 (nat ok)) \<rparr>))"

lemma BATCH_pos: "0 < BATCH g"
  by (cases g) (auto simp: BATCH_def max_def)

text \<open>
  \<^verbatim>\<open>for (let i=0; i<work.length; i+=BATCH) { const chunk = work.slice(i, i+BATCH); ... }\<close>
  with the body as an argument; the three write loops have this header.
\<close>

function chunk_loop ::
  "('a list \<Rightarrow> 's \<Rightarrow> 's) \<Rightarrow> js_num \<Rightarrow> 'a list \<Rightarrow> nat \<Rightarrow> 's \<Rightarrow> 's" where
  "chunk_loop body g work i st =
     (if i < length work
      then chunk_loop body g work (i + BATCH g) (body (slice work i (i + BATCH g)) st)
      else st)"
  by pat_completeness auto
termination
  by (relation "measure (\<lambda>(body, g, work, i, st). length work - i)")
     (auto simp: BATCH_pos diff_less_mono2)

declare chunk_loop.simps [simp del]

text \<open>
  \<^verbatim>\<open>for (const invId of notStockedSet) { try { await connectInventory(invId, location_id); }
  catch (e) { console.warn(...); } }\<close>
\<close>

fun activate :: "connect_oracle \<Rightarrow> string list \<Rightarrow> 'q run_state \<Rightarrow> 'q run_state" where
  "activate connect [] st = st"
| "activate connect (invId # rest) st =
     activate connect rest
       (let st0 = st\<lparr> calls := calls st @ [Connect invId] \<rparr> in
        case connectInventory (connect (length (calls st)) invId) of
          Inr u \<Rightarrow> st0
        | Inl e \<Rightarrow> st0\<lparr> warned := warned st0 @ [invId] \<rparr>)"

text \<open>
  \<^verbatim>\<open>const retry = work.filter(x => notStockedSet.has(x.inventory_item_id));\<close>
\<close>

definition retry_list :: "string list \<Rightarrow> 'q candidate list \<Rightarrow> 'q candidate list" where
  "retry_list ns work = filter (\<lambda>x. set_has ns (inventory_item_id x)) work"

text \<open>The block \<^verbatim>\<open>if (notStockedSet.size) { ... }\<close>.\<close>

definition recover ::
  "'q gql_oracle \<Rightarrow> connect_oracle \<Rightarrow> js_num \<Rightarrow> 'q candidate list \<Rightarrow> 'q run_state \<Rightarrow> 'q run_state" where
  "recover gql connect g work st =
     (if length (notStockedSet st) \<noteq> 0
      then (let st1 = activate connect (notStockedSet st) st;
                retry = retry_list (notStockedSet st1) work
            in chunk_loop (retry_chunk gql) g retry 0 st1)
      else st)"

text \<open>The writing part of the deduplicating version, from the work list on.\<close>

definition write_all ::
  "'q gql_oracle \<Rightarrow> connect_oracle \<Rightarrow> js_num \<Rightarrow> 'q candidate list \<Rightarrow> 'q run_state" where
  "write_all gql connect g work =
     recover gql connect g work (chunk_loop (pass1_chunk gql) g work 0 run_init)"

text \<open>The writing part of the plain version.\<close>

definition write_all_plain :: "'q gql_oracle \<Rightarrow> js_num \<Rightarrow> 'q candidate list \<Rightarrow> 'q run_state" where
  "write_all_plain gql g work = chunk_loop (write_chunk_plain gql) g work 0 run_init"

subsection \<open>The summary\<close>

text \<open>
  The fields of \<^verbatim>\<open>summary\<close> that the run computes; \<^verbatim>\<open>location_id\<close> and \<^verbatim>\<open>writer\<close> are
  configuration. \<open>ambiguous_count\<close> and \<open>misses_count\<close> are its fields \<^verbatim>\<open>ambiguous\<close> and
  \<^verbatim>\<open>misses\<close>, \<open>updated_total\<close> and \<open>errors_total\<close> its fields \<^verbatim>\<open>updated\<close> and \<^verbatim>\<open>errors\<close>.
\<close>

record summary =
  feed_rows :: nat
  shopify_variants_unique :: nat
  matched_exact :: nat
  matched_mapped :: nat
  matched_normalized :: nat
  ambiguous_count :: nat
  misses_count :: nat
  processed_this_run :: nat
  updated_total :: int
  errors_total :: int
  full_sweep_on :: bool

text \<open>The run of the deduplicating version: the summary and the changed rows.\<close>

definition sync ::
  "(string \<Rightarrow> string) \<Rightarrow> (string, string) js_map \<Rightarrow> (string, string list) js_map \<Rightarrow> (string, string) js_map \<Rightarrow>
   string \<Rightarrow> bool \<Rightarrow> js_num \<Rightarrow> 'q gql_oracle \<Rightarrow> connect_oracle \<Rightarrow> (string, 'q) js_map \<Rightarrow>
   summary \<times> 'q changed_row list" where
  "sync toUpperCase exact normalized skuMap mode full_sweep g gql connect feed =
     (let m = match_loop toUpperCase exact normalized skuMap mode feed match_init;
          work = work_list full_sweep (candidates m);
          st = write_all gql connect g work
      in (\<lparr> feed_rows = map_size feed,
             shopify_variants_unique = map_size exact,
             matched_exact = matchedExact m,
             matched_mapped = matchedMapped m,
             matched_normalized = matchedNormalized m,
             ambiguous_count = length (ambiguous m),
             misses_count = length (misses m),
             processed_this_run = length work,
             updated_total = updated st,
             errors_total = errors st,
             full_sweep_on = full_sweep \<rparr>,
          changedRows st))"

text \<open>The run of the plain version.\<close>

definition sync_plain ::
  "(string \<Rightarrow> string) \<Rightarrow> (string, string) js_map \<Rightarrow> (string, string list) js_map \<Rightarrow> (string, string) js_map \<Rightarrow>
   string \<Rightarrow> bool \<Rightarrow> js_num \<Rightarrow> 'q gql_oracle \<Rightarrow> (string, 'q) js_map \<Rightarrow>
   summary \<times> 'q changed_row list" where
  "sync_plain toUpperCase exact normalized skuMap mode full_sweep g gql feed =
     (let m = match_loop_plain toUpperCase exact normalized skuMap mode feed match_init;
          work = work_list_plain full_sweep (candidates m);
          st = write_all_plain gql g work
      in (\<lparr> feed_rows = map_size feed,
             shopify_variants_unique = map_size exact,
             matched_exact = matchedExact m,
             matched_mapped = matchedMapped m,
             matched_normalized = matchedNormalized m,
             ambiguous_count = length (ambiguous m),
             misses_count = length (misses m),
             processed_this_run = length work,
             updated_total = updated st,
             errors_total = errors st,
             full_sweep_on = full_sweep \<rparr>,
          changedRows st))"

subsection \<open>Notions used to state the properties\<close>

text \<open>The ASCII characters, and among them the letters and digits.\<close>

definition is_ascii :: "char \<Rightarrow> bool" where
  "is_ascii c = ((of_char c :: nat) < 128)"

definition is_alnum :: "char \<Rightarrow> bool" where
  "is_alnum c =
     (let n = (of_char c :: nat)
      in (48 \<le> n \<and> n \<le> 57) \<or> (65 \<le> n \<and> n \<le> 90) \<or> (97 \<le> n \<and> n \<le> 122))"

text \<open>The chunks that \<^const>\<open>chunk_loop\<close> hands to its body, from index \<open>i\<close> on.\<close>

function slices :: "js_num \<Rightarrow> 'a list \<Rightarrow> nat \<Rightarrow> 'a list list" where
  "slices g work i =
     (if i < length work
      then slice work i (i + BATCH g) # slices g work (i + BATCH g)
      else [])"
  by pat_completeness auto
termination
  by (relation "measure (\<lambda>(g, work, i). length work - i)")
     (auto simp: BATCH_pos diff_less_mono2)

declare slices.simps [simp del]

text \<open>
  The item ids of the rows of a chunk that a reply marks as not stocked: the rows at the
  positions named by the row errors that pass the test of \<^const>\<open>collect_not_stocked\<close>.
\<close>

definition flagged :: "'q candidate list \<Rightarrow> gql_outcome \<Rightarrow> string set" where
  "flagged chunk r =
     (case r of
        Threw \<Rightarrow> {}
      | Data ue \<Rightarrow>
          {inventory_item_id (chunk ! nat idx) | e idx.
             e \<in> set ue \<and> field2 e = Some (Num idx) \<and> not_stocked (message e)
             \<and> 0 \<le> idx \<and> idx < int (length chunk)})"

section \<open>Normalization\<close>

lemma ascii_upper_fixes_AZ09: "is_AZ09 c \<Longrightarrow> ascii_upper c = c"
  by (auto simp: is_AZ09_def ascii_upper_def Let_def)

lemma is_AZ09_is_ascii: "is_AZ09 c \<Longrightarrow> is_ascii c"
  by (auto simp: is_AZ09_def is_ascii_def Let_def)

lemma is_AZ09_ascii_upper: "is_AZ09 (ascii_upper c) = is_alnum c"
  by (auto simp: is_AZ09_def ascii_upper_def is_alnum_def Let_def)

lemma filter_AZ09_ascii_upper:
  "filter is_AZ09 (map ascii_upper s) = map ascii_upper (filter is_alnum s)"
  by (induction s) (simp_all add: is_AZ09_ascii_upper)

lemma normalizeSkuText_AZ09: "list_all is_AZ09 (normalizeSkuText toUpperCase x)"
  by (simp add: normalizeSkuText_def list_all_iff)

lemma AZ09_string_fixed:
  assumes "list_all is_AZ09 y"
  shows "list_all is_ascii y" and "map ascii_upper y = y" and "filter is_AZ09 y = y"
  using assms
  by (induction y) (simp_all add: is_AZ09_is_ascii ascii_upper_fixes_AZ09)

lemma normalizeSkuText_on_ascii:
  assumes "\<And>s. list_all is_ascii s \<Longrightarrow> toUpperCase s = map ascii_upper s"
      and "list_all is_ascii s"
  shows "normalizeSkuText toUpperCase s = map ascii_upper (filter is_alnum s)"
  using assms by (simp add: normalizeSkuText_def filter_AZ09_ascii_upper)

lemma toUpperCase_ascii_table: "list_all is_ascii s \<Longrightarrow> toUpperCase_ascii s = map ascii_upper s"
  by (simp add: toUpperCase_ascii_def)

lemma toUpperCase_sharp_s_table:
  "list_all is_ascii s \<Longrightarrow> toUpperCase_sharp_s s = map ascii_upper s"
  by (induction s) (auto simp: toUpperCase_sharp_s_def is_ascii_def)

text \<open>
  On a string of ASCII characters every case table that is the library's on such strings
  gives the key that \<^const>\<open>toUpperCase_ascii\<close> gives.
\<close>

lemma normalizeSkuText_ascii_instance:
  assumes "\<And>s. list_all is_ascii s \<Longrightarrow> toUpperCase s = map ascii_upper s"
      and "list_all is_ascii s"
  shows "normalizeSkuText toUpperCase s = normalizeSkuText toUpperCase_ascii s"
  using assms
  by (simp add: normalizeSkuText_on_ascii[of toUpperCase] normalizeSkuText_on_ascii[of toUpperCase_ascii]
        toUpperCase_ascii_table)

text \<open>
  Claim C9. Of the case table it is assumed that on a string of ASCII characters it
  upper-cases the letters a..z and leaves the rest, as the library's table does. Then
  normalizing a normalized SKU changes nothing, for every string, ASCII or not. The key of a
  string of ASCII characters is its letters and digits, upper-cased; so two such strings
  have the same key exactly when they have the same letters and digits up to case, however
  they differ in case and in punctuation. In particular the spellings \<open>ab-12\<close>, \<open>AB12\<close> and
  \<open>Ab_12\<close> have the key \<open>AB12\<close>.
\<close>

theorem normalizeSkuText_idempotent_and_collapses:
  assumes table: "\<And>s. list_all is_ascii s \<Longrightarrow> toUpperCase s = map ascii_upper s"
  shows
  "normalizeSkuText toUpperCase (normalizeSkuText toUpperCase x) = normalizeSkuText toUpperCase x
   \<and> (list_all is_ascii s \<longrightarrow>
        normalizeSkuText toUpperCase s = map ascii_upper (filter is_alnum s))
   \<and> (list_all is_ascii s \<and> list_all is_ascii t \<longrightarrow>
        (normalizeSkuText toUpperCase s = normalizeSkuText toUpperCase t
         \<longleftrightarrow> map ascii_upper (filter is_alnum s) = map ascii_upper (filter is_alnum t)))
   \<and> normalizeSkuText toUpperCase ''ab-12'' = ''AB12''
   \<and> normalizeSkuText toUpperCase ''AB12'' = ''AB12''
   \<and> normalizeSkuText toUpperCase ''Ab_12'' = ''AB12''"
proof -
  let ?y = "normalizeSkuText toUpperCase x"
  have y: "list_all is_AZ09 ?y" by (rule normalizeSkuText_AZ09)
  have "toUpperCase ?y = map ascii_upper ?y"
    using table AZ09_string_fixed(1)[OF y] by blast
  then have "toUpperCase ?y = ?y"
    by (simp only: AZ09_string_fixed(2)[OF y])
  then have "normalizeSkuText toUpperCase ?y = filter is_AZ09 ?y"
    by (simp add: normalizeSkuText_def)
  then have idem: "normalizeSkuText toUpperCase ?y = ?y"
    by (simp only: AZ09_string_fixed(3)[OF y])
  have key: "normalizeSkuText toUpperCase u = map ascii_upper (filter is_alnum u)"
    if "list_all is_ascii u" for u
    using normalizeSkuText_on_ascii[of toUpperCase u] table that by blast
  have a1: "list_all is_ascii ''ab-12''" by (simp add: is_ascii_def)
  have a2: "list_all is_ascii ''AB12''" by (simp add: is_ascii_def)
  have a3: "list_all is_ascii ''Ab_12''" by (simp add: is_ascii_def)
  have k1: "map ascii_upper (filter is_alnum ''ab-12'') = ''AB12''" by code_simp
  have k2: "map ascii_upper (filter is_alnum ''AB12'') = ''AB12''" by code_simp
  have k3: "map ascii_upper (filter is_alnum ''Ab_12'') = ''AB12''" by code_simp
  have e1: "normalizeSkuText toUpperCase ''ab-12'' = ''AB12''" using key[OF a1] k1 by simp
  have e2: "normalizeSkuText toUpperCase ''AB12'' = ''AB12''" using key[OF a2] k2 by simp
  have e3: "normalizeSkuText toUpperCase ''Ab_12'' = ''AB12''" using key[OF a3] k3 by simp
  from idem key e1 e2 e3 show ?thesis by simp
qed

text \<open>
  With the table that also turns the sharp s into \<open>SS\<close>: the key of the sharp s followed by
  \<open>a\<close> is \<open>SSA\<close> and normalizing it again changes nothing. With the ASCII table: \<open>cd.34\<close> and
  \<open>CD34\<close> have the same key, \<open>CD34\<close>.
\<close>

theorem normalizeSkuText_idempotent_and_collapses_witness:
  "normalizeSkuText toUpperCase_sharp_s (normalizeSkuText toUpperCase_sharp_s [char_of (223 :: nat), CHR ''a''])
     = normalizeSkuText toUpperCase_sharp_s [char_of (223 :: nat), CHR ''a'']
   \<and> normalizeSkuText toUpperCase_sharp_s [char_of (223 :: nat), CHR ''a''] = ''SSA''
   \<and> normalizeSkuText toUpperCase_ascii ''cd.34'' = normalizeSkuText toUpperCase_ascii ''CD34''
   \<and> normalizeSkuText toUpperCase_ascii ''cd.34'' = ''CD34''"
proof -
  have i: "normalizeSkuText toUpperCase_sharp_s
             (normalizeSkuText toUpperCase_sharp_s [char_of (223 :: nat), CHR ''a''])
           = normalizeSkuText toUpperCase_sharp_s [char_of (223 :: nat), CHR ''a'']"
    using normalizeSkuText_idempotent_and_collapses[of toUpperCase_sharp_s
            "[char_of (223 :: nat), CHR ''a'']"] toUpperCase_sharp_s_table
    by blast
  have v: "normalizeSkuText toUpperCase_sharp_s [char_of (223 :: nat), CHR ''a''] = ''SSA''"
    by code_simp
  have a1: "list_all is_ascii ''cd.34''" by (simp add: is_ascii_def)
  have a2: "list_all is_ascii ''CD34''" by (simp add: is_ascii_def)
  have k1: "map ascii_upper (filter is_alnum ''cd.34'') = ''CD34''" by code_simp
  have k2: "map ascii_upper (filter is_alnum ''CD34'') = ''CD34''" by code_simp
  have same: "map ascii_upper (filter is_alnum ''cd.34'') = map ascii_upper (filter is_alnum ''CD34'')"
    by (simp only: k1 k2)
  have c: "normalizeSkuText toUpperCase_ascii ''cd.34'' = normalizeSkuText toUpperCase_ascii ''CD34''"
    using normalizeSkuText_idempotent_and_collapses[of toUpperCase_ascii _ "''cd.34''" "''CD34''"]
          toUpperCase_ascii_table a1 a2 same
    by blast
  have "normalizeSkuText toUpperCase_ascii ''cd.34'' = map ascii_upper (filter is_alnum ''cd.34'')"
    using normalizeSkuText_idempotent_and_collapses[of toUpperCase_ascii _ "''cd.34''"]
          toUpperCase_ascii_table a1
    by blast
  then have d: "normalizeSkuText toUpperCase_ascii ''cd.34'' = ''CD34''"
    by (simp only: k1)
  from i v c d show ?thesis by simp
qed

section \<open>Matching\<close>

lemma push_row_plain_eq: "push_row_plain skuMap feedSku q t i st = push_row skuMap feedSku q t i st"
  by (simp add: push_row_plain_def push_row_def String_of_id_def)

lemma mapped_tier_plain_eq: "mapped_tier_plain exact skuMap feedSku i st = mapped_tier exact skuMap feedSku i st"
  by (simp add: mapped_tier_plain_def mapped_tier_def)

lemma match_row_plain_eq: "match_row_plain toUpperCase exact normalized skuMap mode = match_row toUpperCase exact normalized skuMap mode"
  by (intro ext) (simp add: match_row_plain_def match_row_def push_row_plain_eq mapped_tier_plain_eq
        Let_def split: prod.splits)

text \<open>
  Claim C10. For every feed table, catalog index, manual map and mode, the match loop of the
  plain version and the match loop of the deduplicating version produce the same list of
  matched rows, the same list of misses and the same list of ambiguous rows, element for
  element and in the same order.
\<close>

theorem match_loops_agree:
  "candidates (match_loop_plain toUpperCase exact normalized skuMap mode feed match_init)
     = candidates (match_loop toUpperCase exact normalized skuMap mode feed match_init)
   \<and> misses (match_loop_plain toUpperCase exact normalized skuMap mode feed match_init)
     = misses (match_loop toUpperCase exact normalized skuMap mode feed match_init)
   \<and> ambiguous (match_loop_plain toUpperCase exact normalized skuMap mode feed match_init)
     = ambiguous (match_loop toUpperCase exact normalized skuMap mode feed match_init)"
  by (simp add: match_loop_plain_def match_loop_def match_row_plain_eq)

lemma mapped_tier_lists:
  "mapped_tier exact skuMap feedSku invId st = (t, i, st1) \<Longrightarrow>
   candidates st1 = candidates st \<and> misses st1 = misses st \<and> ambiguous st1 = ambiguous st"
  by (auto simp: mapped_tier_def Let_def split: if_splits)

lemma push_row_grows:
  "(\<exists>c. candidates (push_row skuMap feedSku q t i st) = candidates st @ [c]
        \<and> ambiguous (push_row skuMap feedSku q t i st) = ambiguous st
        \<and> misses (push_row skuMap feedSku q t i st) = misses st)
   \<or> (\<exists>m. candidates (push_row skuMap feedSku q t i st) = candidates st
        \<and> ambiguous (push_row skuMap feedSku q t i st) = ambiguous st
        \<and> misses (push_row skuMap feedSku q t i st) = misses st @ [m])"
  by (simp add: push_row_def)

lemma match_row_grows:
  "(\<exists>c. candidates (match_row toUpperCase exact normalized skuMap mode row st) = candidates st @ [c]
        \<and> ambiguous (match_row toUpperCase exact normalized skuMap mode row st) = ambiguous st
        \<and> misses (match_row toUpperCase exact normalized skuMap mode row st) = misses st)
   \<or> (\<exists>a. candidates (match_row toUpperCase exact normalized skuMap mode row st) = candidates st
        \<and> ambiguous (match_row toUpperCase exact normalized skuMap mode row st) = ambiguous st @ [a]
        \<and> misses (match_row toUpperCase exact normalized skuMap mode row st) = misses st)
   \<or> (\<exists>m. candidates (match_row toUpperCase exact normalized skuMap mode row st) = candidates st
        \<and> ambiguous (match_row toUpperCase exact normalized skuMap mode row st) = ambiguous st
        \<and> misses (match_row toUpperCase exact normalized skuMap mode row st) = misses st @ [m])"
proof -
  obtain feedSku q where row: "row = (feedSku, q)" by (cases row)
  obtain t i st1 where mt: "mapped_tier exact skuMap feedSku (map_get exact feedSku) st = (t, i, st1)"
    by (cases "mapped_tier exact skuMap feedSku (map_get exact feedSku) st") auto
  note l = mapped_tier_lists[OF mt]
  show ?thesis
    by (auto simp: match_row_def push_row_def row mt l Let_def)
qed

lemma match_row_total:
  "length (candidates (match_row toUpperCase exact normalized skuMap mode row st))
   + length (ambiguous (match_row toUpperCase exact normalized skuMap mode row st))
   + length (misses (match_row toUpperCase exact normalized skuMap mode row st))
   = Suc (length (candidates st) + length (ambiguous st) + length (misses st))"
  using match_row_grows[of toUpperCase exact normalized skuMap mode row st] by auto

lemma match_loop_total:
  "length (candidates (match_loop toUpperCase exact normalized skuMap mode feed st))
   + length (ambiguous (match_loop toUpperCase exact normalized skuMap mode feed st))
   + length (misses (match_loop toUpperCase exact normalized skuMap mode feed st))
   = length feed + (length (candidates st) + length (ambiguous st) + length (misses st))"
  unfolding match_loop_def
  by (induction feed arbitrary: st) (simp_all add: match_row_total)

text \<open>
  Claim C8. Every feed row lands in exactly one of the three lists: an iteration of the match
  loop appends one element to the matched rows, or one to the ambiguous rows, or one to the
  misses, and leaves the other two lists as they were (so an ambiguous row adds no matched
  row and no miss); and after the loop the three lengths add up to the number of feed rows,
  for every feed table, catalog index, manual map and mode.
\<close>

theorem every_row_in_one_bucket:
  "((\<exists>c. candidates (match_row toUpperCase exact normalized skuMap mode row st) = candidates st @ [c]
        \<and> ambiguous (match_row toUpperCase exact normalized skuMap mode row st) = ambiguous st
        \<and> misses (match_row toUpperCase exact normalized skuMap mode row st) = misses st)
    \<or> (\<exists>a. candidates (match_row toUpperCase exact normalized skuMap mode row st) = candidates st
        \<and> ambiguous (match_row toUpperCase exact normalized skuMap mode row st) = ambiguous st @ [a]
        \<and> misses (match_row toUpperCase exact normalized skuMap mode row st) = misses st)
    \<or> (\<exists>m. candidates (match_row toUpperCase exact normalized skuMap mode row st) = candidates st
        \<and> ambiguous (match_row toUpperCase exact normalized skuMap mode row st) = ambiguous st
        \<and> misses (match_row toUpperCase exact normalized skuMap mode row st) = misses st @ [m]))
   \<and> length (candidates (match_loop toUpperCase exact normalized skuMap mode feed match_init))
     + length (ambiguous (match_loop toUpperCase exact normalized skuMap mode feed match_init))
     + length (misses (match_loop toUpperCase exact normalized skuMap mode feed match_init))
     = length feed"
proof -
  have total: "length (candidates (match_loop toUpperCase exact normalized skuMap mode feed match_init))
     + length (ambiguous (match_loop toUpperCase exact normalized skuMap mode feed match_init))
     + length (misses (match_loop toUpperCase exact normalized skuMap mode feed match_init))
     = length feed"
    by (simp add: match_loop_total match_init_def)
  show ?thesis
    using match_row_grows[of toUpperCase exact normalized skuMap mode row st] total by blast
qed

lemma map_get_size: "map_get m k = Some v \<Longrightarrow> map_size m \<noteq> 0"
  by (cases m) (simp_all add: map_get_def map_size_def)

lemma mapped_tier_hit:
  "truthy invId \<Longrightarrow> mapped_tier exact skuMap feedSku invId st = (feedSku, invId, st)"
  by (simp add: mapped_tier_def)

lemma mapped_tier_unmapped:
  "\<not> truthy (map_get skuMap feedSku) \<Longrightarrow>
   mapped_tier exact skuMap feedSku invId st = (feedSku, invId, st)"
  by (simp add: mapped_tier_def Let_def)

lemma mapped_tier_mapped:
  "\<not> truthy invId \<Longrightarrow> map_get skuMap feedSku = Some m \<Longrightarrow> m \<noteq> [] \<Longrightarrow>
   mapped_tier exact skuMap feedSku invId st =
     (m, map_get exact m,
      if truthy (map_get exact m) then st\<lparr> matchedMapped := matchedMapped st + 1 \<rparr> else st)"
  using map_get_size[of skuMap feedSku m]
  by (simp add: mapped_tier_def Let_def truthy_def)

lemma match_row_exact:
  fixes st :: "'q match_state"
  assumes "truthy (map_get exact feedSku)"
  shows "candidates (match_row toUpperCase exact normalized skuMap mode (feedSku, q) st) = candidates st @ [\<lparr> sku = feedSku, inventory_item_id = the (map_get exact feedSku), qty = q \<rparr>]
       \<and> ambiguous (match_row toUpperCase exact normalized skuMap mode (feedSku, q) st) = ambiguous st
       \<and> misses (match_row toUpperCase exact normalized skuMap mode (feedSku, q) st) = misses st"
  using assms by (simp add: match_row_def mapped_tier_hit push_row_def String_of_id_def)

lemma match_row_mapped_hit:
  fixes st :: "'q match_state"
  assumes "\<not> truthy (map_get exact feedSku)"
      and "map_get skuMap feedSku = Some m \<and> m \<noteq> []"
      and "truthy (map_get exact m)"
  shows "candidates (match_row toUpperCase exact normalized skuMap mode (feedSku, q) st) = candidates st @ [\<lparr> sku = m, inventory_item_id = the (map_get exact m), qty = q \<rparr>]
       \<and> ambiguous (match_row toUpperCase exact normalized skuMap mode (feedSku, q) st) = ambiguous st
       \<and> misses (match_row toUpperCase exact normalized skuMap mode (feedSku, q) st) = misses st"
  using assms by (simp add: match_row_def mapped_tier_mapped push_row_def String_of_id_def)

lemma match_row_mapped_single:
  fixes st :: "'q match_state"
  assumes "\<not> truthy (map_get exact feedSku)"
      and "map_get skuMap feedSku = Some m \<and> m \<noteq> []"
      and "\<not> truthy (map_get exact m)"
      and "mode \<noteq> ''exact''"
      and "map_get normalized (normalizeSkuText toUpperCase m) = Some [i]"
      and "i \<noteq> []"
  shows "candidates (match_row toUpperCase exact normalized skuMap mode (feedSku, q) st) = candidates st @ [\<lparr> sku = m, inventory_item_id = i, qty = q \<rparr>]
       \<and> ambiguous (match_row toUpperCase exact normalized skuMap mode (feedSku, q) st) = ambiguous st
       \<and> misses (match_row toUpperCase exact normalized skuMap mode (feedSku, q) st) = misses st"
  using assms by (simp add: match_row_def mapped_tier_mapped push_row_def String_of_id_def truthy_def)

lemma match_row_mapped_ambiguous:
  fixes st :: "'q match_state"
  assumes "\<not> truthy (map_get exact feedSku)"
      and "map_get skuMap feedSku = Some m \<and> m \<noteq> []"
      and "\<not> truthy (map_get exact m)"
      and "mode \<noteq> ''exact''"
      and "map_get normalized (normalizeSkuText toUpperCase m) = Some l"
      and "1 < length l"
  shows "candidates (match_row toUpperCase exact normalized skuMap mode (feedSku, q) st) = candidates st
       \<and> ambiguous (match_row toUpperCase exact normalized skuMap mode (feedSku, q) st) = ambiguous st @
             [\<lparr> normalized_key = normalizeSkuText toUpperCase m, matches = length l, sample = m \<rparr>]
       \<and> misses (match_row toUpperCase exact normalized skuMap mode (feedSku, q) st) = misses st"
  using assms by (simp add: match_row_def mapped_tier_mapped)

lemma match_row_mapped_none:
  fixes st :: "'q match_state"
  assumes "\<not> truthy (map_get exact feedSku)"
      and "map_get skuMap feedSku = Some m \<and> m \<noteq> []"
      and "\<not> truthy (map_get exact m)"
      and "mode \<noteq> ''exact''"
      and "(map_get normalized (normalizeSkuText toUpperCase m) = None \<or> map_get normalized (normalizeSkuText toUpperCase m) = Some [] \<or> map_get normalized (normalizeSkuText toUpperCase m) = Some [[]])"
  shows "candidates (match_row toUpperCase exact normalized skuMap mode (feedSku, q) st) = candidates st
       \<and> ambiguous (match_row toUpperCase exact normalized skuMap mode (feedSku, q) st) = ambiguous st
       \<and> misses (match_row toUpperCase exact normalized skuMap mode (feedSku, q) st) = misses st @
             [\<lparr> miss_sku = feedSku, mapped_to = m, reason = ''not_in_shopify'' \<rparr>]"
  using assms by (auto simp: match_row_def mapped_tier_mapped push_row_def truthy_def or_empty_def)

lemma match_row_mapped_mode_exact:
  fixes st :: "'q match_state"
  assumes "\<not> truthy (map_get exact feedSku)"
      and "map_get skuMap feedSku = Some m \<and> m \<noteq> []"
      and "\<not> truthy (map_get exact m)"
      and "mode = ''exact''"
  shows "candidates (match_row toUpperCase exact normalized skuMap mode (feedSku, q) st) = candidates st
       \<and> ambiguous (match_row toUpperCase exact normalized skuMap mode (feedSku, q) st) = ambiguous st
       \<and> misses (match_row toUpperCase exact normalized skuMap mode (feedSku, q) st) = misses st @
             [\<lparr> miss_sku = feedSku, mapped_to = m, reason = ''not_in_shopify'' \<rparr>]"
  using assms by (simp add: match_row_def mapped_tier_mapped push_row_def or_empty_def)

lemma match_row_unmapped_single:
  fixes st :: "'q match_state"
  assumes "\<not> truthy (map_get exact feedSku)"
      and "\<not> truthy (map_get skuMap feedSku)"
      and "mode \<noteq> ''exact''"
      and "map_get normalized (normalizeSkuText toUpperCase feedSku) = Some [i]"
      and "i \<noteq> []"
  shows "candidates (match_row toUpperCase exact normalized skuMap mode (feedSku, q) st) = candidates st @ [\<lparr> sku = feedSku, inventory_item_id = i, qty = q \<rparr>]
       \<and> ambiguous (match_row toUpperCase exact normalized skuMap mode (feedSku, q) st) = ambiguous st
       \<and> misses (match_row toUpperCase exact normalized skuMap mode (feedSku, q) st) = misses st"
  using assms by (simp add: match_row_def mapped_tier_unmapped push_row_def String_of_id_def truthy_def)

lemma match_row_unmapped_ambiguous:
  fixes st :: "'q match_state"
  assumes "\<not> truthy (map_get exact feedSku)"
      and "\<not> truthy (map_get skuMap feedSku)"
      and "mode \<noteq> ''exact''"
      and "map_get normalized (normalizeSkuText toUpperCase feedSku) = Some l"
      and "1 < length l"
  shows "candidates (match_row toUpperCase exact normalized skuMap mode (feedSku, q) st) = candidates st
       \<and> ambiguous (match_row toUpperCase exact normalized skuMap mode (feedSku, q) st) = ambiguous st @
             [\<lparr> normalized_key = normalizeSkuText toUpperCase feedSku, matches = length l, sample = feedSku \<rparr>]
       \<and> misses (match_row toUpperCase exact normalized skuMap mode (feedSku, q) st) = misses st"
  using assms by (simp add: match_row_def mapped_tier_unmapped)

lemma match_row_unmapped_none:
  fixes st :: "'q match_state"
  assumes "\<not> truthy (map_get exact feedSku)"
      and "\<not> truthy (map_get skuMap feedSku)"
      and "mode \<noteq> ''exact''"
      and "(map_get normalized (normalizeSkuText toUpperCase feedSku) = None \<or> map_get normalized (normalizeSkuText toUpperCase feedSku) = Some [] \<or> map_get normalized (normalizeSkuText toUpperCase feedSku) = Some [[]])"
  shows "candidates (match_row toUpperCase exact normalized skuMap mode (feedSku, q) st) = candidates st
       \<and> ambiguous (match_row toUpperCase exact normalized skuMap mode (feedSku, q) st) = ambiguous st
       \<and> misses (match_row toUpperCase exact normalized skuMap mode (feedSku, q) st) = misses st @
             [\<lparr> miss_sku = feedSku, mapped_to = [], reason = ''not_in_shopify'' \<rparr>]"
  using assms by (auto simp: match_row_def mapped_tier_unmapped push_row_def truthy_def or_empty_def split: option.splits)

lemma match_row_unmapped_mode_exact:
  fixes st :: "'q match_state"
  assumes "\<not> truthy (map_get exact feedSku)"
      and "\<not> truthy (map_get skuMap feedSku)"
      and "mode = ''exact''"
  shows "candidates (match_row toUpperCase exact normalized skuMap mode (feedSku, q) st) = candidates st
       \<and> ambiguous (match_row toUpperCase exact normalized skuMap mode (feedSku, q) st) = ambiguous st
       \<and> misses (match_row toUpperCase exact normalized skuMap mode (feedSku, q) st) = misses st @
             [\<lparr> miss_sku = feedSku, mapped_to = [], reason = ''not_in_shopify'' \<rparr>]"
  using assms by (auto simp: match_row_def mapped_tier_unmapped push_row_def truthy_def or_empty_def split: option.splits)

text \<open>
  Claim C7. The tiers are tried in the order exact, mapped, normalized, and the first one
  that succeeds decides the row; each case below also says that the two lists it does not
  name stay as they were. When the exact lookup of the feed SKU succeeds, the row is matched
  under the feed SKU, whatever the manual map and the normalized index hold. When it fails
  and the manual map has a SKU \<open>m\<close> for the feed SKU, \<open>m\<close> takes the place of the feed SKU
  from there on: an exact hit on \<open>m\<close> matches the row under \<open>m\<close>; otherwise, when the mode
  is not \<open>exact\<close>, the normalized lookup uses the key of \<open>m\<close> and only that key: a single
  candidate matches the row under \<open>m\<close>, several candidates make the row ambiguous with \<open>m\<close>
  as its sample, and no candidate makes the row a miss that records \<open>m\<close>, whatever the
  normalized index holds for the key of the feed SKU; in mode \<open>exact\<close> the row is such a
  miss at once. Without a mapping the normalized lookup uses the key of the feed SKU in the
  same way, and a miss records no mapping.
\<close>

theorem match_row_tiers:
  fixes st :: "'q match_state"
  shows
  "(truthy (map_get exact feedSku) \<longrightarrow>
       candidates (match_row toUpperCase exact normalized skuMap mode (feedSku, q) st) = candidates st @ [\<lparr> sku = feedSku, inventory_item_id = the (map_get exact feedSku), qty = q \<rparr>]
       \<and> ambiguous (match_row toUpperCase exact normalized skuMap mode (feedSku, q) st) = ambiguous st
       \<and> misses (match_row toUpperCase exact normalized skuMap mode (feedSku, q) st) = misses st)
   \<and> (\<not> truthy (map_get exact feedSku) \<and> map_get skuMap feedSku = Some m \<and> m \<noteq> [] \<and> truthy (map_get exact m) \<longrightarrow>
       candidates (match_row toUpperCase exact normalized skuMap mode (feedSku, q) st) = candidates st @ [\<lparr> sku = m, inventory_item_id = the (map_get exact m), qty = q \<rparr>]
       \<and> ambiguous (match_row toUpperCase exact normalized skuMap mode (feedSku, q) st) = ambiguous st
       \<and> misses (match_row toUpperCase exact normalized skuMap mode (feedSku, q) st) = misses st)
   \<and> (\<not> truthy (map_get exact feedSku) \<and> map_get skuMap feedSku = Some m \<and> m \<noteq> [] \<and> \<not> truthy (map_get exact m) \<and> mode \<noteq> ''exact'' \<and> map_get normalized (normalizeSkuText toUpperCase m) = Some [i] \<and> i \<noteq> [] \<longrightarrow>
       candidates (match_row toUpperCase exact normalized skuMap mode (feedSku, q) st) = candidates st @ [\<lparr> sku = m, inventory_item_id = i, qty = q \<rparr>]
       \<and> ambiguous (match_row toUpperCase exact normalized skuMap mode (feedSku, q) st) = ambiguous st
       \<and> misses (match_row toUpperCase exact normalized skuMap mode (feedSku, q) st) = misses st)
   \<and> (\<not> truthy (map_get exact feedSku) \<and> map_get skuMap feedSku = Some m \<and> m \<noteq> [] \<and> \<not> truthy (map_get exact m) \<and> mode \<noteq> ''exact'' \<and> map_get normalized (normalizeSkuText toUpperCase m) = Some l \<and> 1 < length l \<longrightarrow>
       candidates (match_row toUpperCase exact normalized skuMap mode (feedSku, q) st) = candidates st
       \<and> ambiguous (match_row toUpperCase exact normalized skuMap mode (feedSku, q) st) = ambiguous st @
             [\<lparr> normalized_key = normalizeSkuText toUpperCase m, matches = length l, sample = m \<rparr>]
       \<and> misses (match_row toUpperCase exact normalized skuMap mode (feedSku, q) st) = misses st)
   \<and> (\<not> truthy (map_get exact feedSku) \<and> map_get skuMap feedSku = Some m \<and> m \<noteq> [] \<and> \<not> truthy (map_get exact m) \<and> mode \<noteq> ''exact'' \<and> (map_get normalized (normalizeSkuText toUpperCase m) = None \<or> map_get normalized (normalizeSkuText toUpperCase m) = Some [] \<or> map_get normalized (normalizeSkuText toUpperCase m) = Some [[]]) \<longrightarrow>
       candidates (match_row toUpperCase exact normalized skuMap mode (feedSku, q) st) = candidates st
       \<and> ambiguous (match_row toUpperCase exact normalized skuMap mode (feedSku, q) st) = ambiguous st
       \<and> misses (match_row toUpperCase exact normalized skuMap mode (feedSku, q) st) = misses st @
             [\<lparr> miss_sku = feedSku, mapped_to = m, reason = ''not_in_shopify'' \<rparr>])
   \<and> (\<not> truthy (map_get exact feedSku) \<and> map_get skuMap feedSku = Some m \<and> m \<noteq> [] \<and> \<not> truthy (map_get exact m) \<and> mode = ''exact'' \<longrightarrow>
       candidates (match_row toUpperCase exact normalized skuMap mode (feedSku, q) st) = candidates st
       \<and> ambiguous (match_row toUpperCase exact normalized skuMap mode (feedSku, q) st) = ambiguous st
       \<and> misses (match_row toUpperCase exact normalized skuMap mode (feedSku, q) st) = misses st @
             [\<lparr> miss_sku = feedSku, mapped_to = m, reason = ''not_in_shopify'' \<rparr>])
   \<and> (\<not> truthy (map_get exact feedSku) \<and> \<not> truthy (map_get skuMap feedSku) \<and> mode \<noteq> ''exact'' \<and> map_get normalized (normalizeSkuText toUpperCase feedSku) = Some [i] \<and> i \<noteq> [] \<longrightarrow>
       candidates (match_row toUpperCase exact normalized skuMap mode (feedSku, q) st) = candidates st @ [\<lparr> sku = feedSku, inventory_item_id = i, qty = q \<rparr>]
       \<and> ambiguous (match_row toUpperCase exact normalized skuMap mode (feedSku, q) st) = ambiguous st
       \<and> misses (match_row toUpperCase exact normalized skuMap mode (feedSku, q) st) = misses st)
   \<and> (\<not> truthy (map_get exact feedSku) \<and> \<not> truthy (map_get skuMap feedSku) \<and> mode \<noteq> ''exact'' \<and> map_get normalized (normalizeSkuText toUpperCase feedSku) = Some l \<and> 1 < length l \<longrightarrow>
       candidates (match_row toUpperCase exact normalized skuMap mode (feedSku, q) st) = candidates st
       \<and> ambiguous (match_row toUpperCase exact normalized skuMap mode (feedSku, q) st) = ambiguous st @
             [\<lparr> normalized_key = normalizeSkuText toUpperCase feedSku, matches = length l, sample = feedSku \<rparr>]
       \<and> misses (match_row toUpperCase exact normalized skuMap mode (feedSku, q) st) = misses st)
   \<and> (\<not> truthy (map_get exact feedSku) \<and> \<not> truthy (map_get skuMap feedSku) \<and> mode \<noteq> ''exact'' \<and> (map_get normalized (normalizeSkuText toUpperCase feedSku) = None \<or> map_get normalized (normalizeSkuText toUpperCase feedSku) = Some [] \<or> map_get normalized (normalizeSkuText toUpperCase feedSku) = Some [[]]) \<longrightarrow>
       candidates (match_row toUpperCase exact normalized skuMap mode (feedSku, q) st) = candidates st
       \<and> ambiguous (match_row toUpperCase exact normalized skuMap mode (feedSku, q) st) = ambiguous st
       \<and> misses (match_row toUpperCase exact normalized skuMap mode (feedSku, q) st) = misses st @
             [\<lparr> miss_sku = feedSku, mapped_to = [], reason = ''not_in_shopify'' \<rparr>])
   \<and> (\<not> truthy (map_get exact feedSku) \<and> \<not> truthy (map_get skuMap feedSku) \<and> mode = ''exact'' \<longrightarrow>
       candidates (match_row toUpperCase exact normalized skuMap mode (feedSku, q) st) = candidates st
       \<and> ambiguous (match_row toUpperCase exact normalized skuMap mode (feedSku, q) st) = ambiguous st
       \<and> misses (match_row toUpperCase exact normalized skuMap mode (feedSku, q) st) = misses st @
             [\<lparr> miss_sku = feedSku, mapped_to = [], reason = ''not_in_shopify'' \<rparr>])"
proof -
  have c0: "truthy (map_get exact feedSku) \<longrightarrow>
       candidates (match_row toUpperCase exact normalized skuMap mode (feedSku, q) st) = candidates st @ [\<lparr> sku = feedSku, inventory_item_id = the (map_get exact feedSku), qty = q \<rparr>]
       \<and> ambiguous (match_row toUpperCase exact normalized skuMap mode (feedSku, q) st) = ambiguous st
       \<and> misses (match_row toUpperCase exact normalized skuMap mode (feedSku, q) st) = misses st"
    using match_row_exact[where toUpperCase = toUpperCase and exact = exact and feedSku = feedSku
            and normalized = normalized and skuMap = skuMap and mode = mode and q = q and st = st]
    by blast
  have c1: "\<not> truthy (map_get exact feedSku) \<and> map_get skuMap feedSku = Some m \<and> m \<noteq> [] \<and> truthy (map_get exact m) \<longrightarrow>
       candidates (match_row toUpperCase exact normalized skuMap mode (feedSku, q) st) = candidates st @ [\<lparr> sku = m, inventory_item_id = the (map_get exact m), qty = q \<rparr>]
       \<and> ambiguous (match_row toUpperCase exact normalized skuMap mode (feedSku, q) st) = ambiguous st
       \<and> misses (match_row toUpperCase exact normalized skuMap mode (feedSku, q) st) = misses st"
    using match_row_mapped_hit[where toUpperCase = toUpperCase and exact = exact and feedSku = feedSku
            and normalized = normalized and skuMap = skuMap and mode = mode and q = q and st = st]
    by blast
  have c2: "\<not> truthy (map_get exact feedSku) \<and> map_get skuMap feedSku = Some m \<and> m \<noteq> [] \<and> \<not> truthy (map_get exact m) \<and> mode \<noteq> ''exact'' \<and> map_get normalized (normalizeSkuText toUpperCase m) = Some [i] \<and> i \<noteq> [] \<longrightarrow>
       candidates (match_row toUpperCase exact normalized skuMap mode (feedSku, q) st) = candidates st @ [\<lparr> sku = m, inventory_item_id = i, qty = q \<rparr>]
       \<and> ambiguous (match_row toUpperCase exact normalized skuMap mode (feedSku, q) st) = ambiguous st
       \<and> misses (match_row toUpperCase exact normalized skuMap mode (feedSku, q) st) = misses st"
    using match_row_mapped_single[where toUpperCase = toUpperCase and exact = exact and feedSku = feedSku
            and normalized = normalized and skuMap = skuMap and mode = mode and q = q and st = st]
    by blast
  have c3: "\<not> truthy (map_get exact feedSku) \<and> map_get skuMap feedSku = Some m \<and> m \<noteq> [] \<and> \<not> truthy (map_get exact m) \<and> mode \<noteq> ''exact'' \<and> map_get normalized (normalizeSkuText toUpperCase m) = Some l \<and> 1 < length l \<longrightarrow>
       candidates (match_row toUpperCase exact normalized skuMap mode (feedSku, q) st) = candidates st
       \<and> ambiguous (match_row toUpperCase exact normalized skuMap mode (feedSku, q) st) = ambiguous st @
             [\<lparr> normalized_key = normalizeSkuText toUpperCase m, matches = length l, sample = m \<rparr>]
       \<and> misses (match_row toUpperCase exact normalized skuMap mode (feedSku, q) st) = misses st"
    using match_row_mapped_ambiguous[where toUpperCase = toUpperCase and exact = exact and feedSku = feedSku
            and normalized = normalized and skuMap = skuMap and mode = mode and q = q and st = st]
    by blast
  have c4: "\<not> truthy (map_get exact feedSku) \<and> map_get skuMap feedSku = Some m \<and> m \<noteq> [] \<and> \<not> truthy (map_get exact m) \<and> mode \<noteq> ''exact'' \<and> (map_get normalized (normalizeSkuText toUpperCase m) = None \<or> map_get normalized (normalizeSkuText toUpperCase m) = Some [] \<or> map_get normalized (normalizeSkuText toUpperCase m) = Some [[]]) \<longrightarrow>
       candidates (match_row toUpperCase exact normalized skuMap mode (feedSku, q) st) = candidates st
       \<and> ambiguous (match_row toUpperCase exact normalized skuMap mode (feedSku, q) st) = ambiguous st
       \<and> misses (match_row toUpperCase exact normalized skuMap mode (feedSku, q) st) = misses st @
             [\<lparr> miss_sku = feedSku, mapped_to = m, reason = ''not_in_shopify'' \<rparr>]"
    using match_row_mapped_none[where toUpperCase = toUpperCase and exact = exact and feedSku = feedSku
            and normalized = normalized and skuMap = skuMap and mode = mode and q = q and st = st]
    by blast
  have c5: "\<not> truthy (map_get exact feedSku) \<and> map_get skuMap feedSku = Some m \<and> m \<noteq> [] \<and> \<not> truthy (map_get exact m) \<and> mode = ''exact'' \<longrightarrow>
       candidates (match_row toUpperCase exact normalized skuMap mode (feedSku, q) st) = candidates st
       \<and> ambiguous (match_row toUpperCase exact normalized skuMap mode (feedSku, q) st) = ambiguous st
       \<and> misses (match_row toUpperCase exact normalized skuMap mode (feedSku, q) st) = misses st @
             [\<lparr> miss_sku = feedSku, mapped_to = m, reason = ''not_in_shopify'' \<rparr>]"
    using match_row_mapped_mode_exact[where toUpperCase = toUpperCase and exact = exact and feedSku = feedSku
            and normalized = normalized and skuMap = skuMap and mode = mode and q = q and st = st]
    by blast
  have c6: "\<not> truthy (map_get exact feedSku) \<and> \<not> truthy (map_get skuMap feedSku) \<and> mode \<noteq> ''exact'' \<and> map_get normalized (normalizeSkuText toUpperCase feedSku) = Some [i] \<and> i \<noteq> [] \<longrightarrow>
       candidates (match_row toUpperCase exact normalized skuMap mode (feedSku, q) st) = candidates st @ [\<lparr> sku = feedSku, inventory_item_id = i, qty = q \<rparr>]
       \<and> ambiguous (match_row toUpperCase exact normalized skuMap mode (feedSku, q) st) = ambiguous st
       \<and> misses (match_row toUpperCase exact normalized skuMap mode (feedSku, q) st) = misses st"
    using match_row_unmapped_single[where toUpperCase = toUpperCase and exact = exact and feedSku = feedSku
            and normalized = normalized and skuMap = skuMap and mode = mode and q = q and st = st]
    by blast
  have c7: "\<not> truthy (map_get exact feedSku) \<and> \<not> truthy (map_get skuMap feedSku) \<and> mode \<noteq> ''exact'' \<and> map_get normalized (normalizeSkuText toUpperCase feedSku) = Some l \<and> 1 < length l \<longrightarrow>
       candidates (match_row toUpperCase exact normalized skuMap mode (feedSku, q) st) = candidates st
       \<and> ambiguous (match_row toUpperCase exact normalized skuMap mode (feedSku, q) st) = ambiguous st @
             [\<lparr> normalized_key = normalizeSkuText toUpperCase feedSku, matches = length l, sample = feedSku \<rparr>]
       \<and> misses (match_row toUpperCase exact normalized skuMap mode (feedSku, q) st) = misses st"
    using match_row_unmapped_ambiguous[where toUpperCase = toUpperCase and exact = exact and feedSku = feedSku
            and normalized = normalized and skuMap = skuMap and mode = mode and q = q and st = st]
    by blast
  have c8: "\<not> truthy (map_get exact feedSku) \<and> \<not> truthy (map_get skuMap feedSku) \<and> mode \<noteq> ''exact'' \<and> (map_get normalized (normalizeSkuText toUpperCase feedSku) = None \<or> map_get normalized (normalizeSkuText toUpperCase feedSku) = Some [] \<or> map_get normalized (normalizeSkuText toUpperCase feedSku) = Some [[]]) \<longrightarrow>
       candidates (match_row toUpperCase exact normalized skuMap mode (feedSku, q) st) = candidates st
       \<and> ambiguous (match_row toUpperCase exact normalized skuMap mode (feedSku, q) st) = ambiguous st
       \<and> misses (match_row toUpperCase exact normalized skuMap mode (feedSku, q) st) = misses st @
             [\<lparr> miss_sku = feedSku, mapped_to = [], reason = ''not_in_shopify'' \<rparr>]"
    using match_row_unmapped_none[where toUpperCase = toUpperCase and exact = exact and feedSku = feedSku
            and normalized = normalized and skuMap = skuMap and mode = mode and q = q and st = st]
    by blast
  have c9: "\<not> truthy (map_get exact feedSku) \<and> \<not> truthy (map_get skuMap feedSku) \<and> mode = ''exact'' \<longrightarrow>
       candidates (match_row toUpperCase exact normalized skuMap mode (feedSku, q) st) = candidates st
       \<and> ambiguous (match_row toUpperCase exact normalized skuMap mode (feedSku, q) st) = ambiguous st
       \<and> misses (match_row toUpperCase exact normalized skuMap mode (feedSku, q) st) = misses st @
             [\<lparr> miss_sku = feedSku, mapped_to = [], reason = ''not_in_shopify'' \<rparr>]"
    using match_row_unmapped_mode_exact[where toUpperCase = toUpperCase and exact = exact and feedSku = feedSku
            and normalized = normalized and skuMap = skuMap and mode = mode and q = q and st = st]
    by blast
  show ?thesis
    by (intro conjI) (rule c0, rule c1, rule c2, rule c3, rule c4, rule c5, rule c6, rule c7, rule c8, rule c9)
qed

text \<open>
  One row for each case, with the ASCII case table. In the fifth the manual map sends
  \<open>OLD\<close> to \<open>NEW\<close>, the normalized index has a candidate under the key of \<open>OLD\<close> and none
  under the key of \<open>NEW\<close>: the row is a miss that records \<open>NEW\<close>.
\<close>

theorem match_row_tiers_witness:
  "candidates (match_row toUpperCase_ascii [(''A'', ''1'')] [(''A'', [''8'', ''9''])] [(''A'', ''B'')] ''normalize''
        (''A'', 5 :: int) match_init)
       = [\<lparr> sku = ''A'', inventory_item_id = ''1'', qty = 5 \<rparr>]
   \<and> candidates (match_row toUpperCase_ascii [(''NEW'', ''2'')] [(''NEW'', [''8'', ''9''])] [(''OLD'', ''NEW'')] ''normalize''
        (''OLD'', 3 :: int) match_init)
       = [\<lparr> sku = ''NEW'', inventory_item_id = ''2'', qty = 3 \<rparr>]
   \<and> candidates (match_row toUpperCase_ascii [] [(''AB12'', [''7''])] [(''x'', ''ab-12'')] ''normalize''
        (''x'', 4 :: int) match_init)
       = [\<lparr> sku = ''ab-12'', inventory_item_id = ''7'', qty = 4 \<rparr>]
   \<and> ambiguous (match_row toUpperCase_ascii [] [(''AB12'', [''7'', ''8''])] [(''x'', ''ab-12'')] ''normalize''
        (''x'', 4 :: int) match_init)
       = [\<lparr> normalized_key = ''AB12'', matches = 2, sample = ''ab-12'' \<rparr>]
     \<and> candidates (match_row toUpperCase_ascii [] [(''AB12'', [''7'', ''8''])] [(''x'', ''ab-12'')] ''normalize''
        (''x'', 4 :: int) match_init)
       = []
   \<and> misses (match_row toUpperCase_ascii [] [(''OLD'', [''7''])] [(''OLD'', ''NEW'')] ''normalize''
        (''OLD'', 3 :: int) match_init)
       = [\<lparr> miss_sku = ''OLD'', mapped_to = ''NEW'', reason = ''not_in_shopify'' \<rparr>]
     \<and> candidates (match_row toUpperCase_ascii [] [(''OLD'', [''7''])] [(''OLD'', ''NEW'')] ''normalize''
        (''OLD'', 3 :: int) match_init)
       = []
   \<and> misses (match_row toUpperCase_ascii [] [(''NEW'', [''7''])] [(''OLD'', ''NEW'')] ''exact''
        (''OLD'', 3 :: int) match_init)
       = [\<lparr> miss_sku = ''OLD'', mapped_to = ''NEW'', reason = ''not_in_shopify'' \<rparr>]
     \<and> candidates (match_row toUpperCase_ascii [] [(''NEW'', [''7''])] [(''OLD'', ''NEW'')] ''exact''
        (''OLD'', 3 :: int) match_init)
       = []
   \<and> candidates (match_row toUpperCase_ascii [] [(''AB12'', [''7''])] [] ''normalize''
        (''ab-12'', 6 :: int) match_init)
       = [\<lparr> sku = ''ab-12'', inventory_item_id = ''7'', qty = 6 \<rparr>]
   \<and> ambiguous (match_row toUpperCase_ascii [] [(''AB12'', [''7'', ''8''])] [] ''normalize''
        (''ab-12'', 6 :: int) match_init)
       = [\<lparr> normalized_key = ''AB12'', matches = 2, sample = ''ab-12'' \<rparr>]
     \<and> candidates (match_row toUpperCase_ascii [] [(''AB12'', [''7'', ''8''])] [] ''normalize''
        (''ab-12'', 6 :: int) match_init)
       = []
   \<and> misses (match_row toUpperCase_ascii [] [] [] ''normalize''
        (''Z'', 1 :: int) match_init)
       = [\<lparr> miss_sku = ''Z'', mapped_to = [], reason = ''not_in_shopify'' \<rparr>]
     \<and> candidates (match_row toUpperCase_ascii [] [] [] ''normalize''
        (''Z'', 1 :: int) match_init)
       = []
   \<and> misses (match_row toUpperCase_ascii [] [(''Z'', [''7''])] [] ''exact''
        (''Z'', 1 :: int) match_init)
       = [\<lparr> miss_sku = ''Z'', mapped_to = [], reason = ''not_in_shopify'' \<rparr>]
     \<and> candidates (match_row toUpperCase_ascii [] [(''Z'', [''7''])] [] ''exact''
        (''Z'', 1 :: int) match_init)
       = []"
proof -
  have n1: "normalizeSkuText toUpperCase_ascii ''ab-12'' = ''AB12''" by code_simp
  have n2: "normalizeSkuText toUpperCase_ascii ''NEW'' = ''NEW''" by code_simp
  have n3: "normalizeSkuText toUpperCase_ascii ''Z'' = ''Z''" by code_simp
  have n4: "normalizeSkuText toUpperCase_ascii ''x'' = ''X''" by code_simp
  have a: "candidates (match_row toUpperCase_ascii [(''A'', ''1'')] [(''A'', [''8'', ''9''])] [(''A'', ''B'')] ''normalize''
            (''A'', 5 :: int) match_init)
           = [\<lparr> sku = ''A'', inventory_item_id = ''1'', qty = 5 \<rparr>]"
    using match_row_tiers[where toUpperCase = toUpperCase_ascii
            and exact = "[(''A'', ''1'')]"
            and normalized = "[(''A'', [''8'', ''9''])]"
            and skuMap = "[(''A'', ''B'')]"
            and mode = "''normalize''"
            and feedSku = "''A''"
            and q = "5 :: int"
            and st = "match_init :: int match_state", THEN conjunct1, THEN mp]
    by (simp add: truthy_def map_get_def match_init_def n1 n2 n3 n4)
  have b: "candidates (match_row toUpperCase_ascii [(''NEW'', ''2'')] [(''NEW'', [''8'', ''9''])] [(''OLD'', ''NEW'')] ''normalize''
            (''OLD'', 3 :: int) match_init)
           = [\<lparr> sku = ''NEW'', inventory_item_id = ''2'', qty = 3 \<rparr>]"
    using match_row_tiers[where toUpperCase = toUpperCase_ascii
            and exact = "[(''NEW'', ''2'')]"
            and normalized = "[(''NEW'', [''8'', ''9''])]"
            and skuMap = "[(''OLD'', ''NEW'')]"
            and mode = "''normalize''"
            and feedSku = "''OLD''"
            and q = "3 :: int"
            and st = "match_init :: int match_state"
            and m = "''NEW''", THEN conjunct2, THEN conjunct1, THEN mp]
    by (simp add: truthy_def map_get_def match_init_def n1 n2 n3 n4)
  have c: "candidates (match_row toUpperCase_ascii [] [(''AB12'', [''7''])] [(''x'', ''ab-12'')] ''normalize''
            (''x'', 4 :: int) match_init)
           = [\<lparr> sku = ''ab-12'', inventory_item_id = ''7'', qty = 4 \<rparr>]"
    using match_row_tiers[where toUpperCase = toUpperCase_ascii
            and exact = "[]"
            and normalized = "[(''AB12'', [''7''])]"
            and skuMap = "[(''x'', ''ab-12'')]"
            and mode = "''normalize''"
            and feedSku = "''x''"
            and q = "4 :: int"
            and st = "match_init :: int match_state"
            and m = "''ab-12''"
            and i = "''7''", THEN conjunct2, THEN conjunct2, THEN conjunct1, THEN mp]
    by (simp add: truthy_def map_get_def match_init_def n1 n2 n3 n4)
  have d: "ambiguous (match_row toUpperCase_ascii [] [(''AB12'', [''7'', ''8''])] [(''x'', ''ab-12'')] ''normalize''
            (''x'', 4 :: int) match_init)
           = [\<lparr> normalized_key = ''AB12'', matches = 2, sample = ''ab-12'' \<rparr>]
         \<and> candidates (match_row toUpperCase_ascii [] [(''AB12'', [''7'', ''8''])] [(''x'', ''ab-12'')] ''normalize''
            (''x'', 4 :: int) match_init)
           = []"
    using match_row_tiers[where toUpperCase = toUpperCase_ascii
            and exact = "[]"
            and normalized = "[(''AB12'', [''7'', ''8''])]"
            and skuMap = "[(''x'', ''ab-12'')]"
            and mode = "''normalize''"
            and feedSku = "''x''"
            and q = "4 :: int"
            and st = "match_init :: int match_state"
            and m = "''ab-12''"
            and l = "[''7'', ''8'']", THEN conjunct2, THEN conjunct2, THEN conjunct2, THEN conjunct1, THEN mp]
    by (simp add: truthy_def map_get_def match_init_def n1 n2 n3 n4)
  have e: "misses (match_row toUpperCase_ascii [] [(''OLD'', [''7''])] [(''OLD'', ''NEW'')] ''normalize''
            (''OLD'', 3 :: int) match_init)
           = [\<lparr> miss_sku = ''OLD'', mapped_to = ''NEW'', reason = ''not_in_shopify'' \<rparr>]
         \<and> candidates (match_row toUpperCase_ascii [] [(''OLD'', [''7''])] [(''OLD'', ''NEW'')] ''normalize''
            (''OLD'', 3 :: int) match_init)
           = []"
    using match_row_tiers[where toUpperCase = toUpperCase_ascii
            and exact = "[]"
            and normalized = "[(''OLD'', [''7''])]"
            and skuMap = "[(''OLD'', ''NEW'')]"
            and mode = "''normalize''"
            and feedSku = "''OLD''"
            and q = "3 :: int"
            and st = "match_init :: int match_state"
            and m = "''NEW''", THEN conjunct2, THEN conjunct2, THEN conjunct2, THEN conjunct2, THEN conjunct1, THEN mp]
    by (simp add: truthy_def map_get_def match_init_def n1 n2 n3 n4)
  have f: "misses (match_row toUpperCase_ascii [] [(''NEW'', [''7''])] [(''OLD'', ''NEW'')] ''exact''
            (''OLD'', 3 :: int) match_init)
           = [\<lparr> miss_sku = ''OLD'', mapped_to = ''NEW'', reason = ''not_in_shopify'' \<rparr>]
         \<and> candidates (match_row toUpperCase_ascii [] [(''NEW'', [''7''])] [(''OLD'', ''NEW'')] ''exact''
            (''OLD'', 3 :: int) match_init)
           = []"
    using match_row_tiers[where toUpperCase = toUpperCase_ascii
            and exact = "[]"
            and normalized = "[(''NEW'', [''7''])]"
            and skuMap = "[(''OLD'', ''NEW'')]"
            and mode = "''exact''"
            and feedSku = "''OLD''"
            and q = "3 :: int"
            and st = "match_init :: int match_state"
            and m = "''NEW''", THEN conjunct2, THEN conjunct2, THEN conjunct2, THEN conjunct2, THEN conjunct2, THEN conjunct1, THEN mp]
    by (simp add: truthy_def map_get_def match_init_def n1 n2 n3 n4)
  have g: "candidates (match_row toUpperCase_ascii [] [(''AB12'', [''7''])] [] ''normalize''
            (''ab-12'', 6 :: int) match_init)
           = [\<lparr> sku = ''ab-12'', inventory_item_id = ''7'', qty = 6 \<rparr>]"
    using match_row_tiers[where toUpperCase = toUpperCase_ascii
            and exact = "[]"
            and normalized = "[(''AB12'', [''7''])]"
            and skuMap = "[]"
            and mode = "''normalize''"
            and feedSku = "''ab-12''"
            and q = "6 :: int"
            and st = "match_init :: int match_state"
            and i = "''7''", THEN conjunct2, THEN conjunct2, THEN conjunct2, THEN conjunct2, THEN conjunct2, THEN conjunct2, THEN conjunct1, THEN mp]
    by (simp add: truthy_def map_get_def match_init_def n1 n2 n3 n4)
  have h: "ambiguous (match_row toUpperCase_ascii [] [(''AB12'', [''7'', ''8''])] [] ''normalize''
            (''ab-12'', 6 :: int) match_init)
           = [\<lparr> normalized_key = ''AB12'', matches = 2, sample = ''ab-12'' \<rparr>]
         \<and> candidates (match_row toUpperCase_ascii [] [(''AB12'', [''7'', ''8''])] [] ''normalize''
            (''ab-12'', 6 :: int) match_init)
           = []"
    using match_row_tiers[where toUpperCase = toUpperCase_ascii
            and exact = "[]"
            and normalized = "[(''AB12'', [''7'', ''8''])]"
            and skuMap = "[]"
            and mode = "''normalize''"
            and feedSku = "''ab-12''"
            and q = "6 :: int"
            and st = "match_init :: int match_state"
            and l = "[''7'', ''8'']", THEN conjunct2, THEN conjunct2, THEN conjunct2, THEN conjunct2, THEN conjunct2, THEN conjunct2, THEN conjunct2, THEN conjunct1, THEN mp]
    by (simp add: truthy_def map_get_def match_init_def n1 n2 n3 n4)
  have i: "misses (match_row toUpperCase_ascii [] [] [] ''normalize''
            (''Z'', 1 :: int) match_init)
           = [\<lparr> miss_sku = ''Z'', mapped_to = [], reason = ''not_in_shopify'' \<rparr>]
         \<and> candidates (match_row toUpperCase_ascii [] [] [] ''normalize''
            (''Z'', 1 :: int) match_init)
           = []"
    using match_row_tiers[where toUpperCase = toUpperCase_ascii
            and exact = "[]"
            and normalized = "[]"
            and skuMap = "[]"
            and mode = "''normalize''"
            and feedSku = "''Z''"
            and q = "1 :: int"
            and st = "match_init :: int match_state", THEN conjunct2, THEN conjunct2, THEN conjunct2, THEN conjunct2, THEN conjunct2, THEN conjunct2, THEN conjunct2, THEN conjunct2, THEN conjunct1, THEN mp]
    by (simp add: truthy_def map_get_def match_init_def n1 n2 n3 n4)
  have j: "misses (match_row toUpperCase_ascii [] [(''Z'', [''7''])] [] ''exact''
            (''Z'', 1 :: int) match_init)
           = [\<lparr> miss_sku = ''Z'', mapped_to = [], reason = ''not_in_shopify'' \<rparr>]
         \<and> candidates (match_row toUpperCase_ascii [] [(''Z'', [''7''])] [] ''exact''
            (''Z'', 1 :: int) match_init)
           = []"
    using match_row_tiers[where toUpperCase = toUpperCase_ascii
            and exact = "[]"
            and normalized = "[(''Z'', [''7''])]"
            and skuMap = "[]"
            and mode = "''exact''"
            and feedSku = "''Z''"
            and q = "1 :: int"
            and st = "match_init :: int match_state", THEN conjunct2, THEN conjunct2, THEN conjunct2, THEN conjunct2, THEN conjunct2, THEN conjunct2, THEN conjunct2, THEN conjunct2, THEN conjunct2, THEN mp]
    by (simp add: truthy_def map_get_def match_init_def n1 n2 n3 n4)
  from a b c d e f g h i j show ?thesis by blast
qed

text \<open>
  Claim C2 at the feed row \<open>OLD\<close> with quantity 3, manual map \<open>OLD \<rightarrow> NEW\<close>, catalog holding
  \<open>NEW\<close> only: the row is matched once, by the manual map, and the summary counts it under
  \<open>matched_mapped\<close> and under \<open>matched_exact\<close>, so the three counts add up to 2 for 1
  matched row. (The row never reaches the normalized tier, so the case table plays no part.)
\<close>

theorem mapped_row_counted_twice:
  "fst (sync toUpperCase_ascii [(''NEW'', ''2'')] [(''NEW'', [''2''])] [(''OLD'', ''NEW'')] ''normalize'' True (Num 100)
         (\<lambda>n chunk. Data []) (\<lambda>n invId. Response 200) [(''OLD'', 3 :: int)])
     = \<lparr> feed_rows = 1, shopify_variants_unique = 1,
         matched_exact = 1, matched_mapped = 1, matched_normalized = 0,
         ambiguous_count = 0, misses_count = 0, processed_this_run = 1,
         updated_total = 1, errors_total = 0, full_sweep_on = True \<rparr>
   \<and> candidates (match_loop toUpperCase_ascii [(''NEW'', ''2'')] [(''NEW'', [''2''])] [(''OLD'', ''NEW'')] ''normalize''
         [(''OLD'', 3 :: int)] match_init)
     = [\<lparr> sku = ''NEW'', inventory_item_id = ''2'', qty = 3 \<rparr>]"
  by code_simp

section \<open>Deduplication\<close>

lemma map_set_keys_old: "k \<in> fst ` set m \<Longrightarrow> map fst (map_set m k v) = map fst m"
proof (induction m)
  case Nil
  then show ?case by simp
next
  case (Cons p m)
  show ?case
  proof (cases "fst p = k")
    case True
    then show ?thesis by (cases p) simp
  next
    case False
    with Cons.prems have "k \<in> fst ` set m" by auto
    with Cons.IH False show ?thesis by (cases p) simp
  qed
qed

lemma map_set_keys_new: "k \<notin> fst ` set m \<Longrightarrow> map fst (map_set m k v) = map fst m @ [k]"
  by (induction m) auto

lemma map_set_keys:
  "map fst (map_set m k v) = (if k \<in> fst ` set m then map fst m else map fst m @ [k])"
  by (simp add: map_set_keys_old map_set_keys_new)

lemma map_set_map_of: "map_of (map_set m k v) = (map_of m)(k \<mapsto> v)"
  by (induction m) (auto)

lemma map_set_distinct: "distinct (map fst m) \<Longrightarrow> distinct (map fst (map_set m k v))"
  by (simp add: map_set_keys)

lemma byInv_distinct: "distinct (map fst m) \<Longrightarrow> distinct (map fst (byInv_loop cs m))"
  unfolding byInv_loop_def
  by (induction cs arbitrary: m) (simp_all add: map_set_distinct)

lemma map_set_key_set: "set (map fst (map_set m k v)) = insert k (set (map fst m))"
  by (auto simp: map_set_keys)

lemma byInv_keys: "set (map fst (byInv_loop cs m)) = set (map fst m) \<union> inventory_item_id ` set cs"
  unfolding byInv_loop_def
proof (induction cs arbitrary: m)
  case Nil
  then show ?case by simp
next
  case (Cons c cs)
  have "set (map fst (fold (\<lambda>x byInv. map_set byInv (inventory_item_id x) x) (c # cs) m))
        = set (map fst (map_set m (inventory_item_id c) c)) \<union> inventory_item_id ` set cs"
    using Cons.IH[of "map_set m (inventory_item_id c) c"] by simp
  also have "\<dots> = set (map fst m) \<union> inventory_item_id ` set (c # cs)"
    by (simp only: map_set_key_set) auto
  finally show ?case .
qed

lemma byInv_map_of:
  "map_of (byInv_loop cs m) k =
     (if filter (\<lambda>x. inventory_item_id x = k) cs = [] then map_of m k
      else Some (last (filter (\<lambda>x. inventory_item_id x = k) cs)))"
  unfolding byInv_loop_def
proof (induction cs arbitrary: m)
  case Nil
  then show ?case by simp
next
  case (Cons c cs)
  show ?case
    by (simp add: Cons.IH map_set_map_of)
qed

lemma byInv_entry:
  assumes kw: "(k, w) \<in> set (byInv_loop cs [])"
  shows "filter (\<lambda>x. inventory_item_id x = k) cs \<noteq> []
         \<and> w = last (filter (\<lambda>x. inventory_item_id x = k) cs)
         \<and> inventory_item_id w = k"
proof -
  have d: "distinct (map fst (byInv_loop cs []))" by (rule byInv_distinct) simp
  from kw d have "map_of (byInv_loop cs []) k = Some w" by simp
  then have ne: "filter (\<lambda>x. inventory_item_id x = k) cs \<noteq> []"
    and w: "w = last (filter (\<lambda>x. inventory_item_id x = k) cs)"
    by (auto simp: byInv_map_of split: if_splits)
  from ne have "last (filter (\<lambda>x. inventory_item_id x = k) cs) \<in> set (filter (\<lambda>x. inventory_item_id x = k) cs)"
    by (rule last_in_set)
  with w have "inventory_item_id w = k" by simp
  with ne w show ?thesis by simp
qed

lemma dedupe_ids: "map inventory_item_id (dedupe cs) = map fst (byInv_loop cs [])"
proof -
  have "\<forall>p \<in> set (byInv_loop cs []). inventory_item_id (snd p) = fst p"
  proof
    fix p assume p: "p \<in> set (byInv_loop cs [])"
    then have "(fst p, snd p) \<in> set (byInv_loop cs [])" by simp
    from byInv_entry[OF this] show "inventory_item_id (snd p) = fst p" by blast
  qed
  then show ?thesis
    by (simp add: dedupe_def map_values_def byInv_loop_def)
qed

lemma dedupe_last:
  assumes "w \<in> set (dedupe cs)"
  shows "w = last (filter (\<lambda>x. inventory_item_id x = inventory_item_id w) cs)"
proof -
  from assms obtain k where kw: "(k, w) \<in> set (byInv_loop cs [])"
    by (auto simp: dedupe_def map_values_def byInv_loop_def)
  from byInv_entry[OF kw]
  have w: "w = last (filter (\<lambda>x. inventory_item_id x = k) cs)" and k: "inventory_item_id w = k"
    by blast+
  from w show ?thesis unfolding k .
qed

lemma dedupe_distinct: "distinct (map inventory_item_id (dedupe cs))"
  by (simp add: dedupe_ids byInv_distinct)

lemma dedupe_id_set: "inventory_item_id ` set (dedupe cs) = inventory_item_id ` set cs"
  using byInv_keys[of cs "[]"] dedupe_ids[of cs]
  by (metis list.set_map empty_set list.map(1) sup_bot.left_neutral)

lemma dedupe_length: "length (dedupe cs) = card (inventory_item_id ` set cs)"
proof -
  have "length (dedupe cs) = length (map inventory_item_id (dedupe cs))" by simp
  also have "\<dots> = card (set (map inventory_item_id (dedupe cs)))"
    using dedupe_distinct[of cs] by (simp only: distinct_card)
  also have "\<dots> = card (inventory_item_id ` set cs)"
    by (simp add: dedupe_id_set)
  finally show ?thesis .
qed

text \<open>
  The deduplicating version. For every list of matched rows the deduplicated list has
  exactly one work item for each item id that occurs among the matched rows (its ids are
  distinct and its length is the number of distinct ids), and each work item is the last
  matched row with its item id, so it carries the quantity of the later row. The work list
  handed to the writer is this list when the full sweep is on and its first 1500 items
  otherwise; in both cases it has at most one item per id and the later row survives.
\<close>

theorem dedupe_one_item_per_id_last_wins:
  "distinct (map inventory_item_id (dedupe cs))
   \<and> inventory_item_id ` set (dedupe cs) = inventory_item_id ` set cs
   \<and> length (dedupe cs) = card (inventory_item_id ` set cs)
   \<and> (\<forall>w \<in> set (dedupe cs). w = last (filter (\<lambda>x. inventory_item_id x = inventory_item_id w) cs))
   \<and> work_list True cs = dedupe cs
   \<and> work_list False cs = take 1500 (dedupe cs)
   \<and> distinct (map inventory_item_id (work_list full_sweep cs))
   \<and> (\<forall>w \<in> set (work_list full_sweep cs).
         w = last (filter (\<lambda>x. inventory_item_id x = inventory_item_id w) cs))"
proof -
  have sub: "set (work_list full_sweep cs) \<subseteq> set (dedupe cs)"
    by (auto simp: work_list_def scope_of_work_def dest: in_set_takeD)
  have d: "distinct (map inventory_item_id (work_list full_sweep cs))"
    using dedupe_distinct[of cs]
    by (simp add: work_list_def scope_of_work_def take_map[symmetric])
  from sub d show ?thesis
    by (auto simp: dedupe_distinct dedupe_id_set dedupe_length work_list_def scope_of_work_def
             dest: dedupe_last)
qed

text \<open>
  At three matched rows of which the first and the third share item 1: the work item of
  item 1 is the third row, and two work items remain.
\<close>

theorem dedupe_one_item_per_id_last_wins_witness:
  "\<lparr> sku = ''sku1'', inventory_item_id = ''1'', qty = 7 :: int \<rparr>
     \<in> set (dedupe [\<lparr> sku = ''SKU1'', inventory_item_id = ''1'', qty = 10 \<rparr>,
                     \<lparr> sku = ''X'', inventory_item_id = ''2'', qty = 1 \<rparr>,
                     \<lparr> sku = ''sku1'', inventory_item_id = ''1'', qty = 7 \<rparr>])
   \<and> \<lparr> sku = ''sku1'', inventory_item_id = ''1'', qty = 7 :: int \<rparr>
     = last (filter (\<lambda>x. inventory_item_id x = ''1'')
                [\<lparr> sku = ''SKU1'', inventory_item_id = ''1'', qty = 10 \<rparr>,
                 \<lparr> sku = ''X'', inventory_item_id = ''2'', qty = 1 \<rparr>,
                 \<lparr> sku = ''sku1'', inventory_item_id = ''1'', qty = 7 \<rparr>])
   \<and> length (dedupe [\<lparr> sku = ''SKU1'', inventory_item_id = ''1'', qty = 10 :: int \<rparr>,
                     \<lparr> sku = ''X'', inventory_item_id = ''2'', qty = 1 \<rparr>,
                     \<lparr> sku = ''sku1'', inventory_item_id = ''1'', qty = 7 \<rparr>]) = 2"
proof -
  let ?cs = "[\<lparr> sku = ''SKU1'', inventory_item_id = ''1'', qty = 10 :: int \<rparr>,
              \<lparr> sku = ''X'', inventory_item_id = ''2'', qty = 1 \<rparr>,
              \<lparr> sku = ''sku1'', inventory_item_id = ''1'', qty = 7 \<rparr>]"
  let ?w = "\<lparr> sku = ''sku1'', inventory_item_id = ''1'', qty = 7 :: int \<rparr>"
  have m: "?w \<in> set (dedupe ?cs)"
    by (simp add: dedupe_def byInv_loop_def map_values_def)
  have "inventory_item_id ` set ?cs = {''1'', ''2''}" by auto
  then have c: "card (inventory_item_id ` set ?cs) = 2" by simp
  from dedupe_one_item_per_id_last_wins[of ?cs True] m have "?w = last (filter (\<lambda>x. inventory_item_id x = inventory_item_id ?w) ?cs)"
    by blast
  moreover from dedupe_one_item_per_id_last_wins[of ?cs True] c have "length (dedupe ?cs) = 2" by simp
  ultimately show ?thesis using m by simp
qed

text \<open>
  Claim C1 in the plain version, at the catalog \<open>SKU1 \<rightarrow> 1\<close> and the feed \<open>SKU1: 10\<close>,
  \<open>sku1: 7\<close>: both rows match item 1 (exactly and by normalization), and the work list that
  the writer receives holds both, two work items for one item id. (The SKUs are ASCII, where
  the case table is \<^const>\<open>toUpperCase_ascii\<close>.)
\<close>

theorem plain_work_list_keeps_duplicates:
  "work_list_plain True
     (candidates (match_loop_plain toUpperCase_ascii [(''SKU1'', ''1'')] [(''SKU1'', [''1''])] [] ''normalize''
        [(''SKU1'', 10 :: int), (''sku1'', 7)] match_init))
     = [\<lparr> sku = ''SKU1'', inventory_item_id = ''1'', qty = 10 \<rparr>,
        \<lparr> sku = ''sku1'', inventory_item_id = ''1'', qty = 7 \<rparr>]
   \<and> \<not> distinct (map inventory_item_id (work_list_plain True
     (candidates (match_loop_plain toUpperCase_ascii [(''SKU1'', ''1'')] [(''SKU1'', [''1''])] [] ''normalize''
        [(''SKU1'', 10 :: int), (''sku1'', 7)] match_init))))"
  by code_simp

section \<open>The bulk writer\<close>

lemma chunk_Data:
  assumes "gql (length (calls st)) chunk = Data ue"
  shows "updated (pass1_chunk gql chunk st) = updated st + max 0 (int (length chunk) - int (length ue))"
    and "errors (pass1_chunk gql chunk st) = errors st + int (length ue)"
    and "updated (retry_chunk gql chunk st) = updated st + max 0 (int (length chunk) - int (length ue))"
    and "errors (retry_chunk gql chunk st) = errors st + int (length ue)"
    and "updated (write_chunk_plain gql chunk st) = updated st + max 0 (int (length chunk) - int (length ue))"
    and "errors (write_chunk_plain gql chunk st) = errors st + int (length ue)"
  using assms
  by (simp_all add: pass1_chunk_def retry_chunk_def write_chunk_plain_def Let_def)

lemma changedRows_chunk:
  assumes "gql (length (calls st)) chunk = Data ue"
  shows "changedRows (pass1_chunk gql chunk st)
           = changedRows st @ map changed (take (nat (max 0 (int (length chunk) - int (length ue)))) chunk)"
    and "changedRows (retry_chunk gql chunk st)
           = changedRows st @ map changed (take (nat (max 0 (int (length chunk) - int (length ue)))) chunk)"
    and "changedRows (write_chunk_plain gql chunk st)
           = changedRows st @ map changed (take (nat (max 0 (int (length chunk) - int (length ue)))) chunk)"
  using assms
  by (simp_all add: pass1_chunk_def retry_chunk_def write_chunk_plain_def Let_def slice_def)

text \<open>
  Claim C5, as amended. When the bulk write of a chunk of \<open>n\<close> work items returns \<open>k\<close> row
  errors, the chunk adds \<open>max 0 (n - k)\<close> to the updated count (that is \<open>n - k\<close> when there
  are no more errors than rows, and 0 otherwise) and \<open>k\<close> to the error count, in the first
  pass, in the retry pass and in the plain version.
\<close>

theorem chunk_contribution:
  "gql (length (calls st)) chunk = Data ue \<Longrightarrow>
     updated (pass1_chunk gql chunk st) = updated st + max 0 (int (length chunk) - int (length ue))
   \<and> errors (pass1_chunk gql chunk st) = errors st + int (length ue)
   \<and> updated (retry_chunk gql chunk st) = updated st + max 0 (int (length chunk) - int (length ue))
   \<and> errors (retry_chunk gql chunk st) = errors st + int (length ue)
   \<and> updated (write_chunk_plain gql chunk st) = updated st + max 0 (int (length chunk) - int (length ue))
   \<and> errors (write_chunk_plain gql chunk st) = errors st + int (length ue)"
  by (simp add: chunk_Data)

text \<open>A chunk of 5 items with one error at index 2: 4 updated, 1 error.\<close>

theorem chunk_contribution_witness:
  "updated (pass1_chunk (\<lambda>n chunk. Data [\<lparr> field2 = Some (Num 2), message = ''bad quantity'' \<rparr>])
       [\<lparr> sku = ''a'', inventory_item_id = ''1'', qty = 1 :: int \<rparr>,
        \<lparr> sku = ''b'', inventory_item_id = ''2'', qty = 1 \<rparr>,
        \<lparr> sku = ''c'', inventory_item_id = ''3'', qty = 1 \<rparr>,
        \<lparr> sku = ''d'', inventory_item_id = ''4'', qty = 1 \<rparr>,
        \<lparr> sku = ''e'', inventory_item_id = ''5'', qty = 1 \<rparr>] run_init) = 4
   \<and> errors (pass1_chunk (\<lambda>n chunk. Data [\<lparr> field2 = Some (Num 2), message = ''bad quantity'' \<rparr>])
       [\<lparr> sku = ''a'', inventory_item_id = ''1'', qty = 1 :: int \<rparr>,
        \<lparr> sku = ''b'', inventory_item_id = ''2'', qty = 1 \<rparr>,
        \<lparr> sku = ''c'', inventory_item_id = ''3'', qty = 1 \<rparr>,
        \<lparr> sku = ''d'', inventory_item_id = ''4'', qty = 1 \<rparr>,
        \<lparr> sku = ''e'', inventory_item_id = ''5'', qty = 1 \<rparr>] run_init) = 1"
  using chunk_contribution[of "\<lambda>n chunk. Data [\<lparr> field2 = Some (Num 2), message = ''bad quantity'' \<rparr>]"
          run_init
          "[\<lparr> sku = ''a'', inventory_item_id = ''1'', qty = 1 :: int \<rparr>,
            \<lparr> sku = ''b'', inventory_item_id = ''2'', qty = 1 \<rparr>,
            \<lparr> sku = ''c'', inventory_item_id = ''3'', qty = 1 \<rparr>,
            \<lparr> sku = ''d'', inventory_item_id = ''4'', qty = 1 \<rparr>,
            \<lparr> sku = ''e'', inventory_item_id = ''5'', qty = 1 \<rparr>]"
          "[\<lparr> field2 = Some (Num 2), message = ''bad quantity'' \<rparr>]"]
  by (simp add: run_init_def)

text \<open>
  Claim C5 as stated, at a chunk of one item for which the reply holds two row errors: the
  updated count stays 0, where \<open>n - k\<close> is \<open>-1\<close>.
\<close>

theorem more_errors_than_rows:
  "updated (pass1_chunk (\<lambda>n chunk. Data [\<lparr> field2 = Some (Num 0), message = ''bad quantity'' \<rparr>,
                                         \<lparr> field2 = Some (Num 0), message = ''bad reason'' \<rparr>])
       [\<lparr> sku = ''a'', inventory_item_id = ''1'', qty = 1 :: int \<rparr>] run_init)
     \<noteq> updated (run_init :: int run_state)
        + (int (length [\<lparr> sku = ''a'', inventory_item_id = ''1'', qty = 1 :: int \<rparr>])
           - int (length [\<lparr> field2 = Some (Num 0), message = ''bad quantity'' \<rparr>,
                         \<lparr> field2 = Some (Num 0), message = ''bad reason'' \<rparr>]))
   \<and> updated (pass1_chunk (\<lambda>n chunk. Data [\<lparr> field2 = Some (Num 0), message = ''bad quantity'' \<rparr>,
                                         \<lparr> field2 = Some (Num 0), message = ''bad reason'' \<rparr>])
       [\<lparr> sku = ''a'', inventory_item_id = ''1'', qty = 1 :: int \<rparr>] run_init) = 0"
  by code_simp

text \<open>
  Claim C4, as amended. When the bulk write of a chunk of \<open>n\<close> work items returns \<open>k\<close> row
  errors, the changed rows gain the first \<open>max 0 (n - k)\<close> rows of the chunk, in the order of
  the chunk and whichever positions the errors name, each as its SKU, its item id and its
  quantity; in the first pass, in the retry pass and in the plain version.
\<close>

theorem changed_rows_are_a_prefix:
  "gql (length (calls st)) chunk = Data ue \<Longrightarrow>
     changedRows (pass1_chunk gql chunk st)
       = changedRows st @ map changed (take (nat (max 0 (int (length chunk) - int (length ue)))) chunk)
   \<and> changedRows (retry_chunk gql chunk st)
       = changedRows st @ map changed (take (nat (max 0 (int (length chunk) - int (length ue)))) chunk)
   \<and> changedRows (write_chunk_plain gql chunk st)
       = changedRows st @ map changed (take (nat (max 0 (int (length chunk) - int (length ue)))) chunk)
   \<and> changed x = \<lparr> row_sku = sku x, row_inventory_item_id = inventory_item_id x, row_to = qty x \<rparr>"
  by (simp add: changedRows_chunk changed_def)

text \<open>A chunk of 5 items and one row error at index 2: the first four rows are recorded.\<close>

theorem changed_rows_are_a_prefix_witness:
  "changedRows (pass1_chunk (\<lambda>n chunk. Data [\<lparr> field2 = Some (Num 2), message = ''bad quantity'' \<rparr>]) [\<lparr> sku = ''a'', inventory_item_id = ''1'', qty = 1 :: int \<rparr>,
        \<lparr> sku = ''b'', inventory_item_id = ''2'', qty = 1 \<rparr>,
        \<lparr> sku = ''c'', inventory_item_id = ''3'', qty = 1 \<rparr>,
        \<lparr> sku = ''d'', inventory_item_id = ''4'', qty = 1 \<rparr>,
        \<lparr> sku = ''e'', inventory_item_id = ''5'', qty = 1 \<rparr>] run_init)
   = [\<lparr> row_sku = ''a'', row_inventory_item_id = ''1'', row_to = 1 \<rparr>,
      \<lparr> row_sku = ''b'', row_inventory_item_id = ''2'', row_to = 1 \<rparr>,
      \<lparr> row_sku = ''c'', row_inventory_item_id = ''3'', row_to = 1 \<rparr>,
      \<lparr> row_sku = ''d'', row_inventory_item_id = ''4'', row_to = 1 \<rparr>]"
  using changed_rows_are_a_prefix[of "\<lambda>n chunk. Data [\<lparr> field2 = Some (Num 2), message = ''bad quantity'' \<rparr>]" run_init
          "[\<lparr> sku = ''a'', inventory_item_id = ''1'', qty = 1 :: int \<rparr>,
        \<lparr> sku = ''b'', inventory_item_id = ''2'', qty = 1 \<rparr>,
        \<lparr> sku = ''c'', inventory_item_id = ''3'', qty = 1 \<rparr>,
        \<lparr> sku = ''d'', inventory_item_id = ''4'', qty = 1 \<rparr>,
        \<lparr> sku = ''e'', inventory_item_id = ''5'', qty = 1 \<rparr>]"
          "[\<lparr> field2 = Some (Num 2), message = ''bad quantity'' \<rparr>]"]
  by (simp add: run_init_def changed_def)

text \<open>
  Claim C4 as stated, at the same chunk and reply: the rows that no row error names are the
  rows at the indices 0, 1, 3 and 4, and the changed rows are not these; they hold the row
  at index 2 and lack the row at index 4. The same in the plain version.
\<close>

theorem changed_rows_ignore_error_index:
  "changedRows (pass1_chunk (\<lambda>n chunk. Data [\<lparr> field2 = Some (Num 2), message = ''bad quantity'' \<rparr>]) [\<lparr> sku = ''a'', inventory_item_id = ''1'', qty = 1 :: int \<rparr>,
        \<lparr> sku = ''b'', inventory_item_id = ''2'', qty = 1 \<rparr>,
        \<lparr> sku = ''c'', inventory_item_id = ''3'', qty = 1 \<rparr>,
        \<lparr> sku = ''d'', inventory_item_id = ''4'', qty = 1 \<rparr>,
        \<lparr> sku = ''e'', inventory_item_id = ''5'', qty = 1 \<rparr>] run_init)
     \<noteq> map changed (map snd (filter (\<lambda>p. \<forall>e \<in> set [\<lparr> field2 = Some (Num 2), message = ''bad quantity'' \<rparr>]. field2 e \<noteq> Some (Num (int (fst p))))
                                   (enumerate 0 [\<lparr> sku = ''a'', inventory_item_id = ''1'', qty = 1 :: int \<rparr>,
        \<lparr> sku = ''b'', inventory_item_id = ''2'', qty = 1 \<rparr>,
        \<lparr> sku = ''c'', inventory_item_id = ''3'', qty = 1 \<rparr>,
        \<lparr> sku = ''d'', inventory_item_id = ''4'', qty = 1 \<rparr>,
        \<lparr> sku = ''e'', inventory_item_id = ''5'', qty = 1 \<rparr>])))
   \<and> changedRows (write_chunk_plain (\<lambda>n chunk. Data [\<lparr> field2 = Some (Num 2), message = ''bad quantity'' \<rparr>]) [\<lparr> sku = ''a'', inventory_item_id = ''1'', qty = 1 :: int \<rparr>,
        \<lparr> sku = ''b'', inventory_item_id = ''2'', qty = 1 \<rparr>,
        \<lparr> sku = ''c'', inventory_item_id = ''3'', qty = 1 \<rparr>,
        \<lparr> sku = ''d'', inventory_item_id = ''4'', qty = 1 \<rparr>,
        \<lparr> sku = ''e'', inventory_item_id = ''5'', qty = 1 \<rparr>] run_init)
     \<noteq> map changed (map snd (filter (\<lambda>p. \<forall>e \<in> set [\<lparr> field2 = Some (Num 2), message = ''bad quantity'' \<rparr>]. field2 e \<noteq> Some (Num (int (fst p))))
                                   (enumerate 0 [\<lparr> sku = ''a'', inventory_item_id = ''1'', qty = 1 :: int \<rparr>,
        \<lparr> sku = ''b'', inventory_item_id = ''2'', qty = 1 \<rparr>,
        \<lparr> sku = ''c'', inventory_item_id = ''3'', qty = 1 \<rparr>,
        \<lparr> sku = ''d'', inventory_item_id = ''4'', qty = 1 \<rparr>,
        \<lparr> sku = ''e'', inventory_item_id = ''5'', qty = 1 \<rparr>])))
   \<and> map snd (filter (\<lambda>p. \<forall>e \<in> set [\<lparr> field2 = Some (Num 2), message = ''bad quantity'' \<rparr>]. field2 e \<noteq> Some (Num (int (fst p))))
                      (enumerate 0 [\<lparr> sku = ''a'', inventory_item_id = ''1'', qty = 1 :: int \<rparr>,
        \<lparr> sku = ''b'', inventory_item_id = ''2'', qty = 1 \<rparr>,
        \<lparr> sku = ''c'', inventory_item_id = ''3'', qty = 1 \<rparr>,
        \<lparr> sku = ''d'', inventory_item_id = ''4'', qty = 1 \<rparr>,
        \<lparr> sku = ''e'', inventory_item_id = ''5'', qty = 1 \<rparr>]))
     = [\<lparr> sku = ''a'', inventory_item_id = ''1'', qty = 1 :: int \<rparr>,
        \<lparr> sku = ''b'', inventory_item_id = ''2'', qty = 1 \<rparr>,
        \<lparr> sku = ''d'', inventory_item_id = ''4'', qty = 1 \<rparr>,
        \<lparr> sku = ''e'', inventory_item_id = ''5'', qty = 1 \<rparr>]
   \<and> changedRows (write_chunk_plain (\<lambda>n chunk. Data [\<lparr> field2 = Some (Num 2), message = ''bad quantity'' \<rparr>]) [\<lparr> sku = ''a'', inventory_item_id = ''1'', qty = 1 :: int \<rparr>,
        \<lparr> sku = ''b'', inventory_item_id = ''2'', qty = 1 \<rparr>,
        \<lparr> sku = ''c'', inventory_item_id = ''3'', qty = 1 \<rparr>,
        \<lparr> sku = ''d'', inventory_item_id = ''4'', qty = 1 \<rparr>,
        \<lparr> sku = ''e'', inventory_item_id = ''5'', qty = 1 \<rparr>] run_init)
     = [\<lparr> row_sku = ''a'', row_inventory_item_id = ''1'', row_to = 1 \<rparr>,
        \<lparr> row_sku = ''b'', row_inventory_item_id = ''2'', row_to = 1 \<rparr>,
        \<lparr> row_sku = ''c'', row_inventory_item_id = ''3'', row_to = 1 \<rparr>,
        \<lparr> row_sku = ''d'', row_inventory_item_id = ''4'', row_to = 1 \<rparr>]"
  by code_simp

section \<open>Activation and retry\<close>

lemma chunk_loop_fold: "chunk_loop body g work i st = fold body (slices g work i) st"
proof (induction body g work i st rule: chunk_loop.induct)
  case (1 body g work i st)
  show ?case
  proof (cases "i < length work")
    case True
    then show ?thesis
      using "1.IH" by (subst chunk_loop.simps, subst slices.simps) simp
  next
    case False
    then show ?thesis
      by (subst chunk_loop.simps, subst slices.simps) simp
  qed
qed

lemma calls_pass1_chunk: "calls (pass1_chunk gql chunk st) = calls st @ [SetQuantities chunk]"
  by (simp add: pass1_chunk_def Let_def split: gql_outcome.splits)

lemma calls_retry_chunk: "calls (retry_chunk gql chunk st) = calls st @ [SetQuantities chunk]"
  by (simp add: retry_chunk_def Let_def split: gql_outcome.splits)

lemma notStocked_retry_chunk: "notStockedSet (retry_chunk gql chunk st) = notStockedSet st"
  by (simp add: retry_chunk_def Let_def split: gql_outcome.splits)

lemma calls_fold_pass1: "calls (fold (pass1_chunk gql) cs st) = calls st @ map SetQuantities cs"
  by (induction cs arbitrary: st) (simp_all add: calls_pass1_chunk)

lemma calls_fold_retry: "calls (fold (retry_chunk gql) cs st) = calls st @ map SetQuantities cs"
  by (induction cs arbitrary: st) (simp_all add: calls_retry_chunk)

lemma calls_activate: "calls (activate connect ns st) = calls st @ map Connect ns"
  by (induction ns arbitrary: st) (simp_all add: Let_def split: sum.splits)

lemma notStocked_activate: "notStockedSet (activate connect ns st) = notStockedSet st"
  by (induction ns arbitrary: st) (simp_all add: Let_def split: sum.splits)

lemma set_add_distinct: "distinct ns \<Longrightarrow> distinct (set_add ns x)"
  by (simp add: set_add_def)

lemma collect_distinct: "distinct ns \<Longrightarrow> distinct (collect_not_stocked chunk e ns)"
  by (simp add: collect_not_stocked_def set_add_distinct split: option.splits js_num.splits)

lemma fold_collect_distinct: "distinct ns \<Longrightarrow> distinct (fold (collect_not_stocked chunk) ue ns)"
  by (induction ue arbitrary: ns) (simp_all add: collect_distinct)

lemma pass1_chunk_distinct:
  "distinct (notStockedSet st) \<Longrightarrow> distinct (notStockedSet (pass1_chunk gql chunk st))"
  by (simp add: pass1_chunk_def Let_def fold_collect_distinct split: gql_outcome.splits)

lemma fold_pass1_distinct:
  "distinct (notStockedSet st) \<Longrightarrow> distinct (notStockedSet (fold (pass1_chunk gql) cs st))"
  by (induction cs arbitrary: st) (simp_all add: pass1_chunk_distinct)

lemma collect_set:
  "set (collect_not_stocked chunk e ns) = set ns \<union> flagged chunk (Data [e])"
  by (auto simp: collect_not_stocked_def flagged_def set_add_def split: option.splits js_num.splits)

lemma flagged_Cons: "flagged chunk (Data (e # ue)) = flagged chunk (Data [e]) \<union> flagged chunk (Data ue)"
  by (auto simp: flagged_def)

lemma flagged_Nil: "flagged chunk (Data []) = {}"
  by (simp add: flagged_def)

lemma fold_collect_set:
  "set (fold (collect_not_stocked chunk) ue ns) = set ns \<union> flagged chunk (Data ue)"
proof (induction ue arbitrary: ns)
  case Nil
  then show ?case by (simp add: flagged_Nil)
next
  case (Cons e ue)
  have "set (fold (collect_not_stocked chunk) (e # ue) ns)
        = set (collect_not_stocked chunk e ns) \<union> flagged chunk (Data ue)"
    using Cons.IH[of "collect_not_stocked chunk e ns"] by simp
  also have "\<dots> = set ns \<union> flagged chunk (Data (e # ue))"
    unfolding collect_set flagged_Cons[of chunk e ue] by (simp only: Un_assoc)
  finally show ?case .
qed

lemma pass1_chunk_set:
  "set (notStockedSet (pass1_chunk gql chunk st))
   = set (notStockedSet st) \<union> flagged chunk (gql (length (calls st)) chunk)"
proof (cases "gql (length (calls st)) chunk")
  case Threw
  then show ?thesis by (simp add: pass1_chunk_def Let_def flagged_def)
next
  case (Data ue)
  then show ?thesis
    by (cases "ue = []") (simp_all add: pass1_chunk_def Let_def fold_collect_set flagged_Nil)
qed

lemma fold_pass1_set:
  "x \<in> set (notStockedSet (fold (pass1_chunk gql) cs st))
   \<longleftrightarrow> x \<in> set (notStockedSet st)
       \<or> (\<exists>k<length cs. x \<in> flagged (cs ! k) (gql (length (calls st) + k) (cs ! k)))"
proof (induction cs arbitrary: st)
  case Nil
  then show ?case by simp
next
  case (Cons c cs)
  show ?case
    using Cons.IH[of "pass1_chunk gql c st"]
    by (simp add: calls_pass1_chunk pass1_chunk_set Ex_less_Suc2 disj_assoc)
qed

lemma slices_Nil: "slices g [] i = []"
  by (subst slices.simps) simp

lemma count_list_map_SetQuantities: "count_list (map SetQuantities cs) (Connect x) = 0"
  by (induction cs) simp_all

lemma count_list_map_Connect: "count_list (map Connect ns) (Connect x) = count_list ns x"
  by (induction ns) simp_all

lemma count_list_distinct: "distinct ns \<Longrightarrow> count_list ns x = (if x \<in> set ns then 1 else 0)"
  by (induction ns) auto

lemma pass1_distinct: "distinct (notStockedSet (chunk_loop (pass1_chunk gql) g work 0 run_init))"
  by (simp add: chunk_loop_fold fold_pass1_distinct run_init_def)

lemma pass1_calls:
  "calls (chunk_loop (pass1_chunk gql) g work 0 run_init) = map SetQuantities (slices g work 0)"
  by (simp add: chunk_loop_fold calls_fold_pass1 run_init_def)

lemma pass1_flagged:
  "x \<in> set (notStockedSet (chunk_loop (pass1_chunk gql) g work 0 run_init))
   \<longleftrightarrow> (\<exists>k<length (slices g work 0). x \<in> flagged (slices g work 0 ! k) (gql k (slices g work 0 ! k)))"
  by (simp add: chunk_loop_fold fold_pass1_set run_init_def)

lemma write_all_calls:
  "calls (write_all gql connect g work) =
     map SetQuantities (slices g work 0)
     @ map Connect (notStockedSet (chunk_loop (pass1_chunk gql) g work 0 run_init))
     @ map SetQuantities
         (slices g (retry_list (notStockedSet (chunk_loop (pass1_chunk gql) g work 0 run_init)) work) 0)"
proof (cases "notStockedSet (chunk_loop (pass1_chunk gql) g work 0 run_init) = []")
  case True
  then show ?thesis
    by (simp add: write_all_def recover_def pass1_calls retry_list_def set_has_def slices_Nil)
next
  case False
  then show ?thesis
    by (simp add: write_all_def recover_def Let_def chunk_loop_fold[of "retry_chunk gql"]
          calls_fold_retry calls_activate notStocked_activate pass1_calls)
qed

text \<open>
  Claim C6. For every work list, chunk size and behaviour of the shop, the calls of a run
  are: the writes of the first pass, then one connect for each element of the set of item
  ids to activate, then the writes of one retry pass over the work items whose id is in
  that set, and nothing after that, whatever the retry writes report. The set has no
  repetition and holds exactly the item ids of the rows that a row error of the first pass
  marks as not stocked, so each such item is connected once, however many errors name it.
\<close>

theorem recovery_once_per_run:
  "(let chunks = slices g work 0;
        ns = notStockedSet (chunk_loop (pass1_chunk gql) g work 0 run_init);
        retry = retry_list ns work
    in calls (write_all gql connect g work)
         = map SetQuantities chunks @ map Connect ns @ map SetQuantities (slices g retry 0)
       \<and> distinct ns
       \<and> (\<forall>x. x \<in> set ns \<longleftrightarrow> (\<exists>k<length chunks. x \<in> flagged (chunks ! k) (gql k (chunks ! k))))
       \<and> (\<forall>x. count_list (calls (write_all gql connect g work)) (Connect x)
                = (if x \<in> set ns then 1 else 0))
       \<and> retry = filter (\<lambda>w. inventory_item_id w \<in> set ns) work)"
proof -
  let ?ns = "notStockedSet (chunk_loop (pass1_chunk gql) g work 0 run_init)"
  have cnt: "count_list (calls (write_all gql connect g work)) (Connect x)
             = (if x \<in> set ?ns then 1 else 0)" for x
    by (simp only: write_all_calls count_list_append count_list_map_SetQuantities
          count_list_map_Connect count_list_distinct[OF pass1_distinct])
  show ?thesis
    unfolding Let_def
    using write_all_calls[of gql connect g work] pass1_distinct[of gql g work]
          pass1_flagged[of _ gql g work] cnt
    by (simp add: retry_list_def set_has_def)
qed

text \<open>
  A run with chunks of two over three work items: item 1 is named by two errors of the first
  write, item 3 by an error of the second write, and the retry write reports the same error
  again. Each of the two items is connected once, one retry write follows, and the run ends.
\<close>

theorem recovery_once_per_run_witness:
  "calls (write_all
     (\<lambda>n chunk. if n = 0
        then Data [\<lparr> field2 = Some (Num 0), message = ''Item is not stocked at the location'' \<rparr>,
                   \<lparr> field2 = Some (Num 0), message = ''Item is not stocked at the location'' \<rparr>]
        else if n = 1
        then Data [\<lparr> field2 = Some (Num 0), message = ''NOT STOCKED AT THE LOCATION'' \<rparr>]
        else Data [\<lparr> field2 = Some (Num 0), message = ''Item is not stocked at the location'' \<rparr>])
     (\<lambda>n invId. Response 200)
     (Num 2)
     [\<lparr> sku = ''a'', inventory_item_id = ''1'', qty = 5 :: int \<rparr>,
      \<lparr> sku = ''b'', inventory_item_id = ''2'', qty = 6 \<rparr>,
      \<lparr> sku = ''c'', inventory_item_id = ''3'', qty = 7 \<rparr>])
   = [SetQuantities [\<lparr> sku = ''a'', inventory_item_id = ''1'', qty = 5 \<rparr>,
                     \<lparr> sku = ''b'', inventory_item_id = ''2'', qty = 6 \<rparr>],
      SetQuantities [\<lparr> sku = ''c'', inventory_item_id = ''3'', qty = 7 \<rparr>],
      Connect ''1'', Connect ''3'',
      SetQuantities [\<lparr> sku = ''a'', inventory_item_id = ''1'', qty = 5 \<rparr>,
                     \<lparr> sku = ''c'', inventory_item_id = ''3'', qty = 7 \<rparr>]]"
proof -
  let ?gql = "\<lambda>(n :: nat) (chunk :: int candidate list). if n = 0
        then Data [\<lparr> field2 = Some (Num 0), message = ''Item is not stocked at the location'' \<rparr>,
                   \<lparr> field2 = Some (Num 0), message = ''Item is not stocked at the location'' \<rparr>]
        else if n = 1
        then Data [\<lparr> field2 = Some (Num 0), message = ''NOT STOCKED AT THE LOCATION'' \<rparr>]
        else Data [\<lparr> field2 = Some (Num 0), message = ''Item is not stocked at the location'' \<rparr>]"
  let ?work = "[\<lparr> sku = ''a'', inventory_item_id = ''1'', qty = 5 :: int \<rparr>,
      \<lparr> sku = ''b'', inventory_item_id = ''2'', qty = 6 \<rparr>,
      \<lparr> sku = ''c'', inventory_item_id = ''3'', qty = 7 \<rparr>]"
  have ns: "notStockedSet (chunk_loop (pass1_chunk ?gql) (Num 2) ?work 0 run_init) = [''1'', ''3'']"
    by code_simp
  have ch: "slices (Num 2) ?work 0
            = [[\<lparr> sku = ''a'', inventory_item_id = ''1'', qty = 5 \<rparr>,
                \<lparr> sku = ''b'', inventory_item_id = ''2'', qty = 6 \<rparr>],
               [\<lparr> sku = ''c'', inventory_item_id = ''3'', qty = 7 \<rparr>]]"
    by code_simp
  have re: "slices (Num 2) (retry_list [''1'', ''3''] ?work) 0
            = [[\<lparr> sku = ''a'', inventory_item_id = ''1'', qty = 5 \<rparr>,
                \<lparr> sku = ''c'', inventory_item_id = ''3'', qty = 7 \<rparr>]]"
    by code_simp
  show ?thesis
    using recovery_once_per_run[of "Num 2" ?work ?gql "\<lambda>n invId. Response 200"]
    unfolding Let_def ns ch re by simp
qed

text \<open>
  Claim C3 at a work list of two items that the first write reports as not stocked, where
  the connect of item 1 is answered with status 500 (a failure, which the script reports)
  and the connect of item 2 with status 422 (taken as success): the retry write holds both
  items, the one whose connect failed included.
\<close>

theorem retry_includes_failed_activation:
  "calls (write_all
     (\<lambda>n chunk. if n = 0
        then Data [\<lparr> field2 = Some (Num 0), message = ''Item is not stocked at the location'' \<rparr>,
                   \<lparr> field2 = Some (Num 1), message = ''Item is not stocked at the location'' \<rparr>]
        else Data [])
     (\<lambda>n invId. if invId = ''1'' then Response 500 else Response 422)
     (Num 100)
     [\<lparr> sku = ''a'', inventory_item_id = ''1'', qty = 5 :: int \<rparr>,
      \<lparr> sku = ''b'', inventory_item_id = ''2'', qty = 6 \<rparr>])
   = [SetQuantities [\<lparr> sku = ''a'', inventory_item_id = ''1'', qty = 5 \<rparr>,
                     \<lparr> sku = ''b'', inventory_item_id = ''2'', qty = 6 \<rparr>],
      Connect ''1'', Connect ''2'',
      SetQuantities [\<lparr> sku = ''a'', inventory_item_id = ''1'', qty = 5 \<rparr>,
                     \<lparr> sku = ''b'', inventory_item_id = ''2'', qty = 6 \<rparr>]]
   \<and> warned (write_all
     (\<lambda>n chunk. if n = 0
        then Data [\<lparr> field2 = Some (Num 0), message = ''Item is not stocked at the location'' \<rparr>,
                   \<lparr> field2 = Some (Num 1), message = ''Item is not stocked at the location'' \<rparr>]
        else Data [])
     (\<lambda>n invId. if invId = ''1'' then Response 500 else Response 422)
     (Num 100)
     [\<lparr> sku = ''a'', inventory_item_id = ''1'', qty = 5 :: int \<rparr>,
      \<lparr> sku = ''b'', inventory_item_id = ''2'', qty = 6 \<rparr>]) = [''1'']
   \<and> connectInventory (Response 500) = Inl ConnectFailed
   \<and> connectInventory (Response 422) = Inr ()"
  by code_simp

end
